theory Spec2Isabelle
  imports Complex_Main "HOL-Library.Sublist" "HOL-Library.Char_ord" "HOL-Library.List_Lexorder"
begin

section \<open>Validation findings\<close>

text \<open>
  The package \<^verbatim>\<open>openapi31\<close> holds the Go types of an OpenAPI 3.1 document, their JSON
  codecs and a validation walk. This theory embeds the validation walk and the codec
  of the schema, parameter and callback nodes.

  Conventions of the embedding:
  \<^item> a Go pointer is an \<open>option\<close>, \<open>None\<close> being \<^verbatim>\<open>nil\<close>;
  \<^item> a Go map is an association list that lists the entries in the order in which
    \<^verbatim>\<open>range\<close> yields them. Go leaves that order unspecified, so it is part of the input
    of the model, and every theorem holds for each order;
  \<^item> for a map the modelled functions only take \<^verbatim>\<open>len\<close>, \<^verbatim>\<open>range\<close> and a key lookup, for
    which a \<^verbatim>\<open>nil\<close> map and an empty map agree: both are the empty list (the one
    map that is compared with \<^verbatim>\<open>nil\<close>, the scopes of an OAuth flow, is an \<open>option\<close>);
  \<^item> a \<^verbatim>\<open>float64\<close> bound is a \<open>real\<close>: the bounds are only compared, and on the finite
    values that a JSON number decodes to the comparison is the one of the reals;
  \<^item> an \<^verbatim>\<open>int\<close> bound is an \<open>int\<close>: the bounds are only compared.
\<close>

record ValidationError =
  Path :: string
  Message :: string

record ValidationResult =
  Errors :: "ValidationError list"

definition addError :: "string \<Rightarrow> string \<Rightarrow> ValidationResult \<Rightarrow> ValidationResult" where
  "addError path message r = r\<lparr>Errors := Errors r @ [\<lparr>Path = path, Message = message\<rparr>]\<rparr>"

definition Valid :: "ValidationResult \<Rightarrow> bool" where
  "Valid r = (length (Errors r) = 0)"

text \<open>The verb \<^verbatim>\<open>%d\<close> of \<^verbatim>\<open>fmt.Sprintf\<close> on a slice index.\<close>

function itoa :: "nat \<Rightarrow> string" where
  "itoa n = (if n < 10 then [''0123456789'' ! n]
             else itoa (n div 10) @ [''0123456789'' ! (n mod 10)])"
  by pat_completeness auto
termination
  by (relation "measure (\<lambda>n. n)") auto

declare itoa.simps [simp del]

section \<open>Generic values\<close>

text \<open>
  A value of the Go type \<^verbatim>\<open>any\<close> as \<^verbatim>\<open>encoding/json\<close> produces it: \<^verbatim>\<open>nil\<close>, a bool, a
  \<^verbatim>\<open>float64\<close>, a string, a slice or a map with string keys. The \<^verbatim>\<open>float64\<close> is
  represented by a decimal literal \<open>m * 10 ^ e\<close> that denotes it.
\<close>

datatype any =
  ANil
  | ABool bool
  | ANumber int int
  | AString string
  | ASlice "any list"
  | AMap "(string \<times> any) list"

section \<open>Schema nodes\<close>

record StringOrStringArray =
  Type_String :: string
  Type_Array :: "string list"

text \<open>
  The struct \<^verbatim>\<open>Schema\<close>. Of its keyword fields the datatype carries those that
  \<^verbatim>\<open>Schema.validate\<close>, \<^verbatim>\<open>IsBooleanSchema\<close>, \<^verbatim>\<open>BooleanValue\<close> and the codec read or write by
  name; the other keywords (\<^verbatim>\<open>$id\<close>, \<^verbatim>\<open>$defs\<close>, \<^verbatim>\<open>title\<close>, \<^verbatim>\<open>enum\<close>, ...) are read by none of
  them.
\<close>

datatype Schema = Schema
  (Schema_boolValue: "bool option")
  (Schema_Ref: string)
  (Schema_AllOf: "Schema option list")
  (Schema_AnyOf: "Schema option list")
  (Schema_OneOf: "Schema option list")
  (Schema_Not: "Schema option")
  (Schema_If: "Schema option")
  (Schema_Then: "Schema option")
  (Schema_Else: "Schema option")
  (Schema_PrefixItems: "Schema option list")
  (Schema_Items: "Schema option")
  (Schema_Contains: "Schema option")
  (Schema_Properties: "(string \<times> Schema option) list")
  (Schema_AdditionalProperties: "Schema option")
  (Schema_UnevaluatedItems: "Schema option")
  (Schema_UnevaluatedProperties: "Schema option")
  (Schema_Type: "StringOrStringArray option")
  (Schema_Maximum: "real option")
  (Schema_ExclusiveMaximum: "real option")
  (Schema_Minimum: "real option")
  (Schema_ExclusiveMinimum: "real option")
  (Schema_MaxLength: "int option")
  (Schema_MinLength: "int option")
  (Schema_Pattern: string)
  (Schema_MaxItems: "int option")
  (Schema_MinItems: "int option")
  (Schema_MaxContains: "int option")
  (Schema_MinContains: "int option")
  (Schema_MaxProperties: "int option")
  (Schema_MinProperties: "int option")
  (Schema_Required: "string list")
  (Schema_Extensions: "(string \<times> any) list")

definition Schema0 :: Schema where
  "Schema0 = Schema None [] [] [] [] None None None None [] None None [] None None None
     None None None None None None None [] None None None None None None [] []"

definition IsBooleanSchema :: "Schema option \<Rightarrow> bool" where
  "IsBooleanSchema s = (s \<noteq> None \<and> Schema_boolValue (the s) \<noteq> None)"

definition BooleanValue :: "Schema option \<Rightarrow> bool option" where
  "BooleanValue s = (if s = None then None else Schema_boolValue (the s))"

definition NewBooleanSchema :: "bool \<Rightarrow> Schema option" where
  "NewBooleanSchema v = Some (Schema (Some v) [] [] [] [] None None None None [] None None
     [] None None None None None None None None None None [] None None None None None None
     [] [])"

definition Type_Contains :: "StringOrStringArray option \<Rightarrow> string \<Rightarrow> bool" where
  "Type_Contains s typ =
     (if s = None then False
      else if Type_String (the s) \<noteq> [] then Type_String (the s) = typ
      else typ \<in> set (Type_Array (the s)))"

definition Type_IsEmpty :: "StringOrStringArray option \<Rightarrow> bool" where
  "Type_IsEmpty s = (s = None \<or> (Type_String (the s) = [] \<and> length (Type_Array (the s)) = 0))"

text \<open>The verb \<^verbatim>\<open>'%s'\<close> of \<^verbatim>\<open>fmt.Sprintf\<close>: the string between single quotes.\<close>

definition quoted :: "string \<Rightarrow> string" where
  "quoted s = CHR 0x27 # s @ [CHR 0x27]"

definition validTypes :: "string list" where
  "validTypes = [''string'', ''number'', ''integer'', ''boolean'', ''array'', ''object'', ''null'']"

lemma size_Schema_option_field:
  "Schema_Not s = Some x \<Longrightarrow> size x < size s"
  "Schema_If s = Some x \<Longrightarrow> size x < size s"
  "Schema_Then s = Some x \<Longrightarrow> size x < size s"
  "Schema_Else s = Some x \<Longrightarrow> size x < size s"
  "Schema_Items s = Some x \<Longrightarrow> size x < size s"
  "Schema_Contains s = Some x \<Longrightarrow> size x < size s"
  "Schema_AdditionalProperties s = Some x \<Longrightarrow> size x < size s"
  "Schema_UnevaluatedItems s = Some x \<Longrightarrow> size x < size s"
  "Schema_UnevaluatedProperties s = Some x \<Longrightarrow> size x < size s"
  by (cases s; simp)+

lemma size_list_member:
  "Some x \<in> set xs \<Longrightarrow> size x < Suc (size_list (size_option size) xs)"
  by (induction xs) auto

lemma size_Schema_list_field:
  "Some x \<in> set (Schema_AllOf s) \<Longrightarrow> size x < size s"
  "Some x \<in> set (Schema_AnyOf s) \<Longrightarrow> size x < size s"
  "Some x \<in> set (Schema_OneOf s) \<Longrightarrow> size x < size s"
  "Some x \<in> set (Schema_PrefixItems s) \<Longrightarrow> size x < size s"
  by (cases s; simp; drule size_list_member; simp)+

lemma size_alist_member:
  "(k, Some x) \<in> set kvs \<Longrightarrow>
     size x < Suc (size_list (size_prod (\<lambda>_. 0) (size_option size)) kvs)"
  by (induction kvs) auto

lemma size_Schema_map_field:
  "(k, Some x) \<in> set (Schema_Properties s) \<Longrightarrow> size x < size s"
  by (cases s; simp; drule size_alist_member; simp)

lemma enumerate_member: "(i, x) \<in> set (enumerate n xs) \<Longrightarrow> x \<in> set xs"
  by (auto simp: in_set_enumerate_eq)

text \<open>
  Every function of the walk takes the findings collected so far and returns them
  extended. Its body is a sequence of statements on these findings: \<open>run\<close> executes
  the statements in their order, \<open>check c f\<close> is \<^verbatim>\<open>if c { f }\<close>, and \<open>notnil p f\<close> is
  \<^verbatim>\<open>if p != nil { f(p) }\<close>. A \<^verbatim>\<open>range\<close> loop is a \<open>fold\<close> over the entries, with
  \<open>enumerate 0\<close> for the indices of a slice.
\<close>

definition run :: "('s \<Rightarrow> 's) list \<Rightarrow> 's \<Rightarrow> 's" where
  "run steps result = fold (\<lambda>f r. f r) steps result"

definition check :: "bool \<Rightarrow> ('s \<Rightarrow> 's) \<Rightarrow> 's \<Rightarrow> 's" where
  "check c f result = (if c then f result else result)"

definition notnil :: "'a option \<Rightarrow> ('a \<Rightarrow> 's \<Rightarrow> 's) \<Rightarrow> 's \<Rightarrow> 's" where
  "notnil p f result = (case p of None \<Rightarrow> result | Some x \<Rightarrow> f x result)"

lemma notnil_cong [fundef_cong]:
  "p = q \<Longrightarrow> (\<And>x. q = Some x \<Longrightarrow> f x = g x) \<Longrightarrow> notnil p f = notnil q g"
  by (auto simp: notnil_def fun_eq_iff split: option.splits)

lemma fold_step_cong [fundef_cong]:
  "xs = ys \<Longrightarrow> (\<And>x. x \<in> set ys \<Longrightarrow> f x = g x) \<Longrightarrow> fold f xs = fold g ys"
  by (rule ext) (auto intro: fold_cong)

lemma check_cong [fundef_cong]:
  "c = d \<Longrightarrow> (d \<Longrightarrow> f = g) \<Longrightarrow> check c f = check d g"
  by (auto simp: check_def fun_eq_iff)

text \<open>
  \<^verbatim>\<open>Schema.validate\<close>. The argument \<open>rc\<close> stands for \<^verbatim>\<open>regexp.Compile\<close> of the Go standard
  library: \<open>rc p\<close> is \<open>None\<close> when the pattern \<open>p\<close> compiles, and the text of the error
  otherwise. The receiver is not \<^verbatim>\<open>nil\<close> at any call.
\<close>

function Schema_validate ::
  "(string \<Rightarrow> string option) \<Rightarrow> string \<Rightarrow> Schema \<Rightarrow> ValidationResult \<Rightarrow> ValidationResult"
where
  "Schema_validate rc path s =
    (if IsBooleanSchema (Some s) then (\<lambda>result. result)
     else if Schema_Ref s \<noteq> [] then (\<lambda>result. result)
     else run [
            check (Schema_Type s \<noteq> None \<and> \<not> Type_IsEmpty (Schema_Type s))
              (fold (\<lambda>t. check (t \<notin> set validTypes)
                            (addError (path @ ''.type'') (''invalid type '' @ quoted t)))
                 (if Type_String (the (Schema_Type s)) \<noteq> []
                  then [Type_String (the (Schema_Type s))]
                  else Type_Array (the (Schema_Type s)))),
            check (Schema_Type s \<noteq> None \<and> Type_Contains (Schema_Type s) ''array''
                   \<and> Schema_Items s = None \<and> length (Schema_PrefixItems s) = 0)
              (addError path ''array type should have items or prefixItems defined''),
            check (Schema_Minimum s \<noteq> None \<and> Schema_Maximum s \<noteq> None)
              (check (the (Schema_Minimum s) > the (Schema_Maximum s))
                 (addError path ''minimum cannot be greater than maximum'')),
            check (Schema_ExclusiveMinimum s \<noteq> None \<and> Schema_ExclusiveMaximum s \<noteq> None)
              (check (the (Schema_ExclusiveMinimum s) \<ge> the (Schema_ExclusiveMaximum s))
                 (addError path ''exclusiveMinimum must be less than exclusiveMaximum'')),
            check (Schema_MinLength s \<noteq> None \<and> Schema_MaxLength s \<noteq> None)
              (check (the (Schema_MinLength s) > the (Schema_MaxLength s))
                 (addError path ''minLength cannot be greater than maxLength'')),
            check (Schema_MinItems s \<noteq> None \<and> Schema_MaxItems s \<noteq> None)
              (check (the (Schema_MinItems s) > the (Schema_MaxItems s))
                 (addError path ''minItems cannot be greater than maxItems'')),
            check (Schema_MinProperties s \<noteq> None \<and> Schema_MaxProperties s \<noteq> None)
              (check (the (Schema_MinProperties s) > the (Schema_MaxProperties s))
                 (addError path ''minProperties cannot be greater than maxProperties'')),
            check (Schema_MinContains s \<noteq> None \<and> Schema_MaxContains s \<noteq> None)
              (check (the (Schema_MinContains s) > the (Schema_MaxContains s))
                 (addError path ''minContains cannot be greater than maxContains'')),
            check (Schema_Pattern s \<noteq> [])
              (notnil (rc (Schema_Pattern s))
                 (\<lambda>err. addError (path @ ''.pattern'') (''invalid regex pattern: '' @ err))),
            check (length (Schema_Required s) > 0 \<and> length (Schema_Properties s) > 0)
              (fold (\<lambda>req. check (req \<notin> set (map fst (Schema_Properties s)))
                              (addError (path @ ''.required'')
                                 (''required property '' @ quoted req
                                    @ '' not defined in properties'')))
                 (Schema_Required s)),
            notnil (Schema_Items s) (\<lambda>x. Schema_validate rc (path @ ''.items'') x),
            fold (\<lambda>(i, schema).
                    notnil schema
                      (\<lambda>x. Schema_validate rc (path @ ''.prefixItems['' @ itoa i @ '']'') x))
              (enumerate 0 (Schema_PrefixItems s)),
            fold (\<lambda>(name, prop).
                    notnil prop
                      (\<lambda>x. Schema_validate rc (path @ ''.properties['' @ name @ '']'') x))
              (Schema_Properties s),
            notnil (Schema_AdditionalProperties s)
              (\<lambda>x. Schema_validate rc (path @ ''.additionalProperties'') x),
            fold (\<lambda>(i, schema).
                    notnil schema
                      (\<lambda>x. Schema_validate rc (path @ ''.allOf['' @ itoa i @ '']'') x))
              (enumerate 0 (Schema_AllOf s)),
            fold (\<lambda>(i, schema).
                    notnil schema
                      (\<lambda>x. Schema_validate rc (path @ ''.anyOf['' @ itoa i @ '']'') x))
              (enumerate 0 (Schema_AnyOf s)),
            fold (\<lambda>(i, schema).
                    notnil schema
                      (\<lambda>x. Schema_validate rc (path @ ''.oneOf['' @ itoa i @ '']'') x))
              (enumerate 0 (Schema_OneOf s)),
            notnil (Schema_Not s) (\<lambda>x. Schema_validate rc (path @ ''.not'') x),
            notnil (Schema_If s) (\<lambda>x. Schema_validate rc (path @ ''.if'') x),
            notnil (Schema_Then s) (\<lambda>x. Schema_validate rc (path @ ''.then'') x),
            notnil (Schema_Else s) (\<lambda>x. Schema_validate rc (path @ ''.else'') x),
            notnil (Schema_Contains s)
              (\<lambda>x. Schema_validate rc (path @ ''.contains'') x),
            notnil (Schema_UnevaluatedItems s)
              (\<lambda>x. Schema_validate rc (path @ ''.unevaluatedItems'') x),
            notnil (Schema_UnevaluatedProperties s)
              (\<lambda>x. Schema_validate rc (path @ ''.unevaluatedProperties'') x)])"
  by pat_completeness auto
termination
  by (relation "measure (\<lambda>(rc, path, s). size s)")
     (auto dest!: enumerate_member
           intro: size_Schema_option_field size_Schema_list_field size_Schema_map_field)

declare Schema_validate.simps [simp del]

section \<open>The document tree\<close>

text \<open>
  The structs of the package, a record for each struct that is not recursive and
  a datatype for the recursive ones. A field keeps its Go name, prefixed with the name
  of its struct.
\<close>

record ExternalDocumentation =
  ExternalDocumentation_Description :: string
  ExternalDocumentation_URL :: string
  ExternalDocumentation_Extensions :: "(string \<times> any) list"

record Example =
  Example_isReference :: bool
  Example_Ref :: string
  Example_Summary :: string
  Example_Description :: string
  Example_Value :: any
  Example_ExternalValue :: string
  Example_Extensions :: "(string \<times> any) list"

record ServerVariable =
  ServerVariable_Enum :: "string list"
  ServerVariable_Default :: string
  ServerVariable_Description :: string
  ServerVariable_Extensions :: "(string \<times> any) list"

record Server =
  Server_URL :: string
  Server_Description :: string
  Server_Variables :: "(string \<times> ServerVariable option) list"
  Server_Extensions :: "(string \<times> any) list"

record Link =
  Link_isReference :: bool
  Link_Ref :: string
  Link_Summary :: string
  Link_Description :: string
  Link_OperationRef :: string
  Link_OperationId :: string
  Link_Parameters :: "(string \<times> string) list"
  Link_RequestBody :: any
  Link_Server :: "Server option"
  Link_Extensions :: "(string \<times> any) list"

text \<open>
  \<^verbatim>\<open>Header\<close>, \<^verbatim>\<open>MediaType\<close> and \<^verbatim>\<open>Encoding\<close> refer to each other. The declarations of
  \<^verbatim>\<open>MediaType\<close> and \<^verbatim>\<open>Encoding\<close> of this package are not among the sources; they carry
  the fields that \<^verbatim>\<open>MediaType.validate\<close> and \<^verbatim>\<open>Encoding.validate\<close> read.
\<close>

datatype Header = Header
  (Header_isReference: bool)
  (Header_Ref: string)
  (Header_Summary: string)
  (Header_Description: string)
  (Header_Required: bool)
  (Header_Deprecated: bool)
  (Header_Style: string)
  (Header_Explode: "bool option")
  (Header_Schema: "Schema option")
  (Header_Content: "(string \<times> MediaType option) list")
  (Header_Example: any)
  (Header_Examples: "(string \<times> Example option) list")
  (Header_Extensions: "(string \<times> any) list")
and MediaType = MediaType
  (MediaType_Schema: "Schema option")
  (MediaType_Example: any)
  (MediaType_Examples: "(string \<times> Example option) list")
  (MediaType_Encoding: "(string \<times> Encoding option) list")
and Encoding = Encoding
  (Encoding_Style: string)
  (Encoding_Headers: "(string \<times> Header option) list")

record Parameter =
  Parameter_isReference :: bool
  Parameter_Ref :: string
  Parameter_Summary :: string
  Parameter_Description :: string
  Parameter_Name :: string
  Parameter_In :: string
  Parameter_Required :: bool
  Parameter_Deprecated :: bool
  Parameter_AllowEmptyValue :: bool
  Parameter_Style :: string
  Parameter_Explode :: "bool option"
  Parameter_AllowReserved :: bool
  Parameter_Schema :: "Schema option"
  Parameter_Content :: "(string \<times> MediaType option) list"
  Parameter_Example :: any
  Parameter_Examples :: "(string \<times> Example option) list"
  Parameter_Extensions :: "(string \<times> any) list"

record RequestBody =
  RequestBody_isReference :: bool
  RequestBody_Ref :: string
  RequestBody_Summary :: string
  RequestBody_Description :: string
  RequestBody_Content :: "(string \<times> MediaType option) list"
  RequestBody_Required :: bool
  RequestBody_Extensions :: "(string \<times> any) list"

record Response =
  Response_isReference :: bool
  Response_Ref :: string
  Response_Summary :: string
  Response_Description :: string
  Response_Headers :: "(string \<times> Header option) list"
  Response_Content :: "(string \<times> MediaType option) list"
  Response_Links :: "(string \<times> Link option) list"
  Response_Extensions :: "(string \<times> any) list"

record Responses =
  Responses_Default :: "Response option"
  Responses_StatusCode :: "(string \<times> Response option) list"
  Responses_Extensions :: "(string \<times> any) list"

text \<open>
  \<^verbatim>\<open>PathItem\<close>, \<^verbatim>\<open>Operation\<close> and \<^verbatim>\<open>Callback\<close> refer to each other. A value of the
  datatype is a finite tree, as a decoded document is.
\<close>

datatype PathItem = PathItem
  (PathItem_Ref: string)
  (PathItem_Summary: string)
  (PathItem_Description: string)
  (PathItem_Servers: "Server option list")
  (PathItem_Parameters: "Parameter option list")
  (PathItem_Get: "Operation option")
  (PathItem_Put: "Operation option")
  (PathItem_Post: "Operation option")
  (PathItem_Delete: "Operation option")
  (PathItem_Options: "Operation option")
  (PathItem_Head: "Operation option")
  (PathItem_Patch: "Operation option")
  (PathItem_Trace: "Operation option")
  (PathItem_Extensions: "(string \<times> any) list")
and Operation = Operation
  (Operation_Tags: "string list")
  (Operation_Summary: string)
  (Operation_Description: string)
  (Operation_ExternalDocs: "ExternalDocumentation option")
  (Operation_OperationID: string)
  (Operation_Parameters: "Parameter option list")
  (Operation_RequestBody: "RequestBody option")
  (Operation_Responses: "Responses option")
  (Operation_Callbacks: "(string \<times> Callback option) list")
  (Operation_Deprecated: bool)
  (Operation_Security: "(string \<times> string list) list list")
  (Operation_Servers: "Server option list")
  (Operation_Extensions: "(string \<times> any) list")
and Callback = Callback
  (Callback_isReference: bool)
  (Callback_Ref: string)
  (Callback_Summary: string)
  (Callback_Description: string)
  (Callback_Paths: "(string \<times> PathItem option) list")
  (Callback_Extensions: "(string \<times> any) list")

record Paths =
  Paths_Paths :: "(string \<times> PathItem option) list"
  Paths_Extensions :: "(string \<times> any) list"

record OAuthFlow =
  OAuthFlow_AuthorizationUrl :: string
  OAuthFlow_TokenUrl :: string
  OAuthFlow_RefreshUrl :: string
  OAuthFlow_Scopes :: "(string \<times> string) list option"
  OAuthFlow_Extensions :: "(string \<times> any) list"

record OAuthFlows =
  OAuthFlows_Implicit :: "OAuthFlow option"
  OAuthFlows_Password :: "OAuthFlow option"
  OAuthFlows_ClientCredentials :: "OAuthFlow option"
  OAuthFlows_AuthorizationCode :: "OAuthFlow option"
  OAuthFlows_Extensions :: "(string \<times> any) list"

record SecurityScheme =
  SecurityScheme_isReference :: bool
  SecurityScheme_Ref :: string
  SecurityScheme_Summary :: string
  SecurityScheme_Description :: string
  SecurityScheme_Type :: string
  SecurityScheme_Name :: string
  SecurityScheme_In :: string
  SecurityScheme_Scheme :: string
  SecurityScheme_BearerFormat :: string
  SecurityScheme_Flows :: "OAuthFlows option"
  SecurityScheme_OpenIdConnectUrl :: string
  SecurityScheme_Extensions :: "(string \<times> any) list"

record Components =
  Components_Schemas :: "(string \<times> Schema option) list"
  Components_Responses :: "(string \<times> Response option) list"
  Components_Parameters :: "(string \<times> Parameter option) list"
  Components_Examples :: "(string \<times> Example option) list"
  Components_RequestBodies :: "(string \<times> RequestBody option) list"
  Components_Headers :: "(string \<times> Header option) list"
  Components_SecuritySchemes :: "(string \<times> SecurityScheme option) list"
  Components_Links :: "(string \<times> Link option) list"
  Components_Callbacks :: "(string \<times> Callback option) list"
  Components_PathItems :: "(string \<times> PathItem option) list"
  Components_Extensions :: "(string \<times> any) list"

record Tag =
  Tag_Name :: string
  Tag_Description :: string
  Tag_ExternalDocs :: "ExternalDocumentation option"
  Tag_Extensions :: "(string \<times> any) list"

record Contact =
  Contact_Name :: string
  Contact_URL :: string
  Contact_Email :: string
  Contact_Extensions :: "(string \<times> any) list"

record License =
  License_Name :: string
  License_Identifier :: string
  License_URL :: string
  License_Extensions :: "(string \<times> any) list"

record Info =
  Info_Title :: string
  Info_Summary :: string
  Info_Description :: string
  Info_TermsOfService :: string
  Info_Contact :: "Contact option"
  Info_License :: "License option"
  Info_Version :: string
  Info_Extensions :: "(string \<times> any) list"

record OpenAPI =
  OpenAPI_OpenAPI :: string
  OpenAPI_Info :: "Info option"
  OpenAPI_JsonSchemaDialect :: string
  OpenAPI_Servers :: "Server option list"
  OpenAPI_Paths :: "Paths option"
  OpenAPI_Webhooks :: "(string \<times> PathItem option) list"
  OpenAPI_Components :: "Components option"
  OpenAPI_Security :: "(string \<times> string list) list list"
  OpenAPI_Tags :: "Tag option list"
  OpenAPI_ExternalDocs :: "ExternalDocumentation option"
  OpenAPI_Extensions :: "(string \<times> any) list"

section \<open>Accessors on pointer receivers\<close>

text \<open>
  \<^verbatim>\<open>IsReference\<close> has a pointer receiver and tests it against \<^verbatim>\<open>nil\<close> before it reads
  the marker.
\<close>

definition Parameter_IsReference :: "Parameter option \<Rightarrow> bool" where
  "Parameter_IsReference p = (if p = None then False else Parameter_isReference (the p))"

definition Header_IsReference :: "Header option \<Rightarrow> bool" where
  "Header_IsReference h = (if h = None then False else Header_isReference (the h))"

definition Callback_IsReference :: "Callback option \<Rightarrow> bool" where
  "Callback_IsReference c = (if c = None then False else Callback_isReference (the c))"

definition RequestBody_IsReference :: "RequestBody option \<Rightarrow> bool" where
  "RequestBody_IsReference rb = (if rb = None then False else RequestBody_isReference (the rb))"

definition Response_IsReference :: "Response option \<Rightarrow> bool" where
  "Response_IsReference r = (if r = None then False else Response_isReference (the r))"

definition Link_IsReference :: "Link option \<Rightarrow> bool" where
  "Link_IsReference l = (if l = None then False else Link_isReference (the l))"

definition SecurityScheme_IsReference :: "SecurityScheme option \<Rightarrow> bool" where
  "SecurityScheme_IsReference ss =
     (if ss = None then False else SecurityScheme_isReference (the ss))"

definition Example_IsReference :: "Example option \<Rightarrow> bool" where
  "Example_IsReference e = (if e = None then False else Example_isReference (the e))"

section \<open>The validation walk\<close>

definition License_validate :: "string \<Rightarrow> License \<Rightarrow> ValidationResult \<Rightarrow> ValidationResult" where
  "License_validate path l = run [
     check (License_Name l = []) (addError (path @ ''.name'') ''required field is missing''),
     check (License_Identifier l \<noteq> [] \<and> License_URL l \<noteq> [])
       (addError path ''identifier and url are mutually exclusive'')]"

definition Info_validate :: "string \<Rightarrow> Info \<Rightarrow> ValidationResult \<Rightarrow> ValidationResult" where
  "Info_validate path i = run [
     check (Info_Title i = []) (addError (path @ ''.title'') ''required field is missing''),
     check (Info_Version i = []) (addError (path @ ''.version'') ''required field is missing''),
     notnil (Info_License i) (\<lambda>l. License_validate (path @ ''.license'') l)]"

definition ServerVariable_validate ::
  "string \<Rightarrow> ServerVariable \<Rightarrow> ValidationResult \<Rightarrow> ValidationResult" where
  "ServerVariable_validate path v = run [
     check (ServerVariable_Default v = [])
       (addError (path @ ''.default'') ''required field is missing''),
     check (length (ServerVariable_Enum v) > 0)
       (check (ServerVariable_Default v \<notin> set (ServerVariable_Enum v))
          (addError (path @ ''.default'') ''default value must be one of the enum values''))]"

definition Server_validate :: "string \<Rightarrow> Server \<Rightarrow> ValidationResult \<Rightarrow> ValidationResult" where
  "Server_validate path s = run [
     check (Server_URL s = []) (addError (path @ ''.url'') ''required field is missing''),
     fold (\<lambda>(name, v).
             notnil v (\<lambda>x. ServerVariable_validate (path @ ''.variables['' @ name @ '']'') x))
       (Server_Variables s)]"

definition Tag_validate :: "string \<Rightarrow> Tag \<Rightarrow> ValidationResult \<Rightarrow> ValidationResult" where
  "Tag_validate path t =
     check (Tag_Name t = []) (addError (path @ ''.name'') ''required field is missing'')"

definition Link_validate :: "string \<Rightarrow> Link \<Rightarrow> ValidationResult \<Rightarrow> ValidationResult" where
  "Link_validate path l =
     (if Link_IsReference (Some l) then (\<lambda>result. result)
      else check (Link_OperationId l \<noteq> [] \<and> Link_OperationRef l \<noteq> [])
             (addError path (''cannot have both 'operationId' and '' @ quoted ''operationRef'')))"

definition Header_validate :: "string \<Rightarrow> Header \<Rightarrow> ValidationResult \<Rightarrow> ValidationResult" where
  "Header_validate path h =
     (if Header_IsReference (Some h) then (\<lambda>result. result)
      else run [
        check (\<not> (Header_Schema h \<noteq> None) \<and> \<not> (length (Header_Content h) > 0))
          (addError path (''must have either 'schema' or '' @ quoted ''content'')),
        check (Header_Schema h \<noteq> None \<and> length (Header_Content h) > 0)
          (addError path (''cannot have both 'schema' and '' @ quoted ''content'')),
        check (Header_Example h \<noteq> ANil \<and> length (Header_Examples h) > 0)
          (addError path (''cannot have both 'example' and '' @ quoted ''examples'')),
        check (Header_Style h \<noteq> [] \<and> Header_Style h \<noteq> ''simple'')
          (addError (path @ ''.style'') (''header style must be '' @ quoted ''simple''))])"

definition Encoding_validate :: "string \<Rightarrow> Encoding \<Rightarrow> ValidationResult \<Rightarrow> ValidationResult" where
  "Encoding_validate path e = run [
     check (Encoding_Style e \<noteq> [])
       (check (Encoding_Style e \<notin> set [''form'', ''spaceDelimited'', ''pipeDelimited'', ''deepObject''])
          (addError (path @ ''.style'')
             (''invalid encoding style '' @ quoted (Encoding_Style e)))),
     fold (\<lambda>(name, header).
             notnil header (\<lambda>x. Header_validate (path @ ''.headers['' @ name @ '']'') x))
       (Encoding_Headers e)]"

definition MediaType_validate ::
  "(string \<Rightarrow> string option) \<Rightarrow> string \<Rightarrow> MediaType \<Rightarrow> ValidationResult \<Rightarrow> ValidationResult"
where
  "MediaType_validate rc path m = run [
     check (MediaType_Example m \<noteq> ANil \<and> length (MediaType_Examples m) > 0)
       (addError path (''cannot have both 'example' and '' @ quoted ''examples'')),
     notnil (MediaType_Schema m) (\<lambda>x. Schema_validate rc (path @ ''.schema'') x),
     fold (\<lambda>(name, enc).
             notnil enc (\<lambda>x. Encoding_validate (path @ ''.encoding['' @ name @ '']'') x))
       (MediaType_Encoding m)]"

definition validIn :: "string list" where
  "validIn = [''query'', ''header'', ''path'', ''cookie'']"

definition validStyles :: "string \<Rightarrow> string list option" where
  "validStyles = map_of [
     (''path'', [''matrix'', ''label'', ''simple'']),
     (''query'', [''form'', ''spaceDelimited'', ''pipeDelimited'', ''deepObject'']),
     (''header'', [''simple'']),
     (''cookie'', [''form''])]"

definition Parameter_validate ::
  "(string \<Rightarrow> string option) \<Rightarrow> string \<Rightarrow> Parameter \<Rightarrow> ValidationResult \<Rightarrow> ValidationResult"
where
  "Parameter_validate rc path p =
     (if Parameter_IsReference (Some p) then (\<lambda>result. result)
      else run [
        check (Parameter_Name p = []) (addError (path @ ''.name'') ''required field is missing''),
        (if Parameter_In p = [] then addError (path @ ''.in'') ''required field is missing''
         else check (Parameter_In p \<notin> set validIn)
                (addError (path @ ''.in'')
                   (''must be one of: query, header, path, cookie; got '' @ Parameter_In p))),
        check (Parameter_In p = ''path'' \<and> \<not> Parameter_Required p)
          (addError (path @ ''.required'') ''path parameters must have required: true''),
        check (Parameter_Style p \<noteq> [])
          (notnil (validStyles (Parameter_In p))
             (\<lambda>styles. check (Parameter_Style p \<notin> set styles)
                (addError (path @ ''.style'')
                   (''invalid style '' @ quoted (Parameter_Style p)
                      @ '' for parameter in '' @ quoted (Parameter_In p))))),
        check (\<not> (Parameter_Schema p \<noteq> None) \<and> \<not> (length (Parameter_Content p) > 0))
          (addError path (''must have either 'schema' or '' @ quoted ''content'')),
        check (Parameter_Schema p \<noteq> None \<and> length (Parameter_Content p) > 0)
          (addError path (''cannot have both 'schema' and '' @ quoted ''content'')),
        check (Parameter_Example p \<noteq> ANil \<and> length (Parameter_Examples p) > 0)
          (addError path (''cannot have both 'example' and '' @ quoted ''examples'')),
        notnil (Parameter_Schema p) (\<lambda>x. Schema_validate rc (path @ ''.schema'') x)])"

definition RequestBody_validate ::
  "(string \<Rightarrow> string option) \<Rightarrow> string \<Rightarrow> RequestBody \<Rightarrow> ValidationResult \<Rightarrow> ValidationResult"
where
  "RequestBody_validate rc path r =
     (if RequestBody_IsReference (Some r) then (\<lambda>result. result)
      else run [
        check (length (RequestBody_Content r) = 0)
          (addError (path @ ''.content'') ''required field is missing''),
        fold (\<lambda>(mediaType, mt).
                notnil mt (\<lambda>x. MediaType_validate rc (path @ ''.content['' @ mediaType @ '']'') x))
          (RequestBody_Content r)])"

definition Response_validate ::
  "(string \<Rightarrow> string option) \<Rightarrow> string \<Rightarrow> Response \<Rightarrow> ValidationResult \<Rightarrow> ValidationResult"
where
  "Response_validate rc path r =
     (if Response_IsReference (Some r) then (\<lambda>result. result)
      else run [
        check (Response_Description r = [])
          (addError (path @ ''.description'') ''required field is missing''),
        fold (\<lambda>(name, header).
                notnil header (\<lambda>x. Header_validate (path @ ''.headers['' @ name @ '']'') x))
          (Response_Headers r),
        fold (\<lambda>(mediaType, mt).
                notnil mt (\<lambda>x. MediaType_validate rc (path @ ''.content['' @ mediaType @ '']'') x))
          (Response_Content r),
        fold (\<lambda>(name, link).
                notnil link (\<lambda>x. Link_validate (path @ ''.links['' @ name @ '']'') x))
          (Response_Links r)])"

text \<open>
  The regular expression \<^verbatim>\<open>^[1-5][0-9][0-9]$|^[1-5]XX$\<close> of \<^verbatim>\<open>Responses.validate\<close> and the
  regular expression \<^verbatim>\<open>^[a-zA-Z0-9\.\-_]+$\<close> of \<^verbatim>\<open>Components.validate\<close>, as predicates on
  the whole string.
\<close>

definition statusCodePattern :: "string \<Rightarrow> bool" where
  "statusCodePattern code =
     (case code of
        [a, b, c] \<Rightarrow>
          a \<in> set ''12345''
          \<and> ((b \<in> set ''0123456789'' \<and> c \<in> set ''0123456789'') \<or> (b = CHR ''X'' \<and> c = CHR ''X''))
      | _ \<Rightarrow> False)"

definition namePattern :: "string \<Rightarrow> bool" where
  "namePattern name =
     (name \<noteq> [] \<and>
      list_all (\<lambda>c. c \<in> set ''abcdefghijklmnopqrstuvwxyzABCDEFGHIJKLMNOPQRSTUVWXYZ0123456789.-_'')
        name)"

definition Responses_validate ::
  "(string \<Rightarrow> string option) \<Rightarrow> string \<Rightarrow> Responses \<Rightarrow> ValidationResult \<Rightarrow> ValidationResult"
where
  "Responses_validate rc path r = run [
     check (\<not> (Responses_Default r \<noteq> None \<or> length (Responses_StatusCode r) > 0))
       (addError path ''must contain at least one response''),
     fold (\<lambda>(code, resp). run [
             check (\<not> statusCodePattern code)
               (addError (path @ ''.'' @ code)
                  ''invalid status code pattern, must be 3-digit code or pattern like 2XX''),
             notnil resp (\<lambda>x. Response_validate rc (path @ ''.'' @ code) x)])
       (Responses_StatusCode r),
     notnil (Responses_Default r) (\<lambda>x. Response_validate rc (path @ ''.default'') x)]"

lemma size_PathItem_field:
  "PathItem_Get p = Some x \<Longrightarrow> size x < size p"
  "PathItem_Put p = Some x \<Longrightarrow> size x < size p"
  "PathItem_Post p = Some x \<Longrightarrow> size x < size p"
  "PathItem_Delete p = Some x \<Longrightarrow> size x < size p"
  "PathItem_Options p = Some x \<Longrightarrow> size x < size p"
  "PathItem_Head p = Some x \<Longrightarrow> size x < size p"
  "PathItem_Patch p = Some x \<Longrightarrow> size x < size p"
  "PathItem_Trace p = Some x \<Longrightarrow> size x < size p"
  by (cases p; simp)+

lemma size_Operation_field:
  "(k, Some c) \<in> set (Operation_Callbacks op) \<Longrightarrow> size c < size op"
  by (cases op; simp; drule size_alist_member; simp)

lemma size_Callback_field:
  "(k, Some p) \<in> set (Callback_Paths c) \<Longrightarrow> size p < size c"
  by (cases c; simp; drule size_alist_member; simp)

function PathItem_validate ::
  "(string \<Rightarrow> string option) \<Rightarrow> string \<Rightarrow> PathItem \<Rightarrow> ValidationResult \<Rightarrow> ValidationResult"
and Operation_validate ::
  "(string \<Rightarrow> string option) \<Rightarrow> string \<Rightarrow> Operation \<Rightarrow> ValidationResult \<Rightarrow> ValidationResult"
and Callback_validate ::
  "(string \<Rightarrow> string option) \<Rightarrow> string \<Rightarrow> Callback \<Rightarrow> ValidationResult \<Rightarrow> ValidationResult"
where
  "PathItem_validate rc path p =
     (if PathItem_Ref p \<noteq> [] then (\<lambda>result. result)
      else run [
        fold (\<lambda>(i, param).
                notnil param
                  (\<lambda>x. Parameter_validate rc (path @ ''.parameters['' @ itoa i @ '']'') x))
          (enumerate 0 (PathItem_Parameters p)),
        notnil (PathItem_Get p) (\<lambda>x. Operation_validate rc (path @ ''.get'') x),
        notnil (PathItem_Put p) (\<lambda>x. Operation_validate rc (path @ ''.put'') x),
        notnil (PathItem_Post p) (\<lambda>x. Operation_validate rc (path @ ''.post'') x),
        notnil (PathItem_Delete p) (\<lambda>x. Operation_validate rc (path @ ''.delete'') x),
        notnil (PathItem_Options p) (\<lambda>x. Operation_validate rc (path @ ''.options'') x),
        notnil (PathItem_Head p) (\<lambda>x. Operation_validate rc (path @ ''.head'') x),
        notnil (PathItem_Patch p) (\<lambda>x. Operation_validate rc (path @ ''.patch'') x),
        notnil (PathItem_Trace p) (\<lambda>x. Operation_validate rc (path @ ''.trace'') x)])"
| "Operation_validate rc path op = run [
     (if Operation_Responses op = None
      then addError (path @ ''.responses'') ''required field is missing''
      else Responses_validate rc (path @ ''.responses'') (the (Operation_Responses op))),
     fold (\<lambda>(i, param).
             notnil param
               (\<lambda>x. Parameter_validate rc (path @ ''.parameters['' @ itoa i @ '']'') x))
       (enumerate 0 (Operation_Parameters op)),
     notnil (Operation_RequestBody op)
       (\<lambda>x. RequestBody_validate rc (path @ ''.requestBody'') x),
     fold (\<lambda>(name, callback).
             notnil callback
               (\<lambda>x. Callback_validate rc (path @ ''.callbacks['' @ name @ '']'') x))
       (Operation_Callbacks op)]"
| "Callback_validate rc path c =
     (if Callback_IsReference (Some c) then (\<lambda>result. result)
      else fold (\<lambda>(expr, pathItem).
                   notnil pathItem (\<lambda>x. PathItem_validate rc (path @ ''['' @ expr @ '']'') x))
             (Callback_Paths c))"
  by pat_completeness auto
termination
  by (relation "measure (\<lambda>x. case x of
                   Inl (rc, path, p) \<Rightarrow> size p
                 | Inr (Inl (rc, path, op)) \<Rightarrow> size op
                 | Inr (Inr (rc, path, c)) \<Rightarrow> size c)")
     (auto intro: size_PathItem_field size_Operation_field size_Callback_field)

declare PathItem_validate.simps [simp del]
declare Operation_validate.simps [simp del]
declare Callback_validate.simps [simp del]

definition Paths_validate ::
  "(string \<Rightarrow> string option) \<Rightarrow> string \<Rightarrow> Paths \<Rightarrow> ValidationResult \<Rightarrow> ValidationResult"
where
  "Paths_validate rc path p =
     fold (\<lambda>(pathPattern, pathItem). run [
             check (\<not> prefix ''/'' pathPattern)
               (addError (path @ ''.'' @ pathPattern) ''path must start with /''),
             notnil pathItem
               (\<lambda>x. PathItem_validate rc (path @ ''['' @ pathPattern @ '']'') x)])
       (Paths_Paths p)"

definition OAuthFlows_validate ::
  "string \<Rightarrow> OAuthFlows \<Rightarrow> ValidationResult \<Rightarrow> ValidationResult" where
  "OAuthFlows_validate path f = run [
     check (\<not> (OAuthFlows_Implicit f \<noteq> None \<or> OAuthFlows_Password f \<noteq> None
                \<or> OAuthFlows_ClientCredentials f \<noteq> None
                \<or> OAuthFlows_AuthorizationCode f \<noteq> None))
       (addError path ''at least one OAuth flow must be defined''),
     notnil (OAuthFlows_Implicit f) (\<lambda>fl. run [
       check (OAuthFlow_AuthorizationUrl fl = [])
         (addError (path @ ''.implicit.authorizationUrl'') ''required for implicit flow''),
       check (OAuthFlow_Scopes fl = None)
         (addError (path @ ''.implicit.scopes'') ''required field is missing'')]),
     notnil (OAuthFlows_Password f) (\<lambda>fl. run [
       check (OAuthFlow_TokenUrl fl = [])
         (addError (path @ ''.password.tokenUrl'') ''required for password flow''),
       check (OAuthFlow_Scopes fl = None)
         (addError (path @ ''.password.scopes'') ''required field is missing'')]),
     notnil (OAuthFlows_ClientCredentials f) (\<lambda>fl. run [
       check (OAuthFlow_TokenUrl fl = [])
         (addError (path @ ''.clientCredentials.tokenUrl'')
            ''required for clientCredentials flow''),
       check (OAuthFlow_Scopes fl = None)
         (addError (path @ ''.clientCredentials.scopes'') ''required field is missing'')]),
     notnil (OAuthFlows_AuthorizationCode f) (\<lambda>fl. run [
       check (OAuthFlow_AuthorizationUrl fl = [])
         (addError (path @ ''.authorizationCode.authorizationUrl'')
            ''required for authorizationCode flow''),
       check (OAuthFlow_TokenUrl fl = [])
         (addError (path @ ''.authorizationCode.tokenUrl'')
            ''required for authorizationCode flow''),
       check (OAuthFlow_Scopes fl = None)
         (addError (path @ ''.authorizationCode.scopes'') ''required field is missing'')])]"

definition SecurityScheme_validate ::
  "string \<Rightarrow> SecurityScheme \<Rightarrow> ValidationResult \<Rightarrow> ValidationResult" where
  "SecurityScheme_validate path ss =
     (if SecurityScheme_IsReference (Some ss) then (\<lambda>result. result)
      else run [
        (if SecurityScheme_Type ss = []
         then addError (path @ ''.type'') ''required field is missing''
         else check (SecurityScheme_Type ss
                       \<notin> set [''apiKey'', ''http'', ''mutualTLS'', ''oauth2'', ''openIdConnect''])
                (addError (path @ ''.type'')
                   (''must be one of: apiKey, http, mutualTLS, oauth2, openIdConnect; got ''
                      @ SecurityScheme_Type ss))),
        (if SecurityScheme_Type ss = ''apiKey'' then run [
           check (SecurityScheme_Name ss = [])
             (addError (path @ ''.name'') ''required for apiKey type''),
           (if SecurityScheme_In ss = []
            then addError (path @ ''.in'') ''required for apiKey type''
            else check (SecurityScheme_In ss \<notin> set [''query'', ''header'', ''cookie''])
                   (addError (path @ ''.in'') ''must be one of: query, header, cookie''))]
         else if SecurityScheme_Type ss = ''http'' then
           check (SecurityScheme_Scheme ss = [])
             (addError (path @ ''.scheme'') ''required for http type'')
         else if SecurityScheme_Type ss = ''oauth2'' then
           (if SecurityScheme_Flows ss = None
            then addError (path @ ''.flows'') ''required for oauth2 type''
            else OAuthFlows_validate (path @ ''.flows'') (the (SecurityScheme_Flows ss)))
         else if SecurityScheme_Type ss = ''openIdConnect'' then
           check (SecurityScheme_OpenIdConnectUrl ss = [])
             (addError (path @ ''.openIdConnectUrl'') ''required for openIdConnect type'')
         else (\<lambda>result. result))])"

text \<open>
  One loop of \<^verbatim>\<open>Components.validate\<close>: the name of each entry of the registry \<open>kind\<close> is
  matched against the name pattern, then the entry is validated.
\<close>

definition component_loop ::
  "string \<Rightarrow> string \<Rightarrow> (string \<Rightarrow> 'a \<Rightarrow> ValidationResult \<Rightarrow> ValidationResult)
     \<Rightarrow> (string \<times> 'a option) list \<Rightarrow> ValidationResult \<Rightarrow> ValidationResult" where
  "component_loop path kind validate entries =
     fold (\<lambda>(name, x). run [
             check (\<not> namePattern name)
               (addError (path @ ''.'' @ kind @ ''['' @ name @ '']'')
                  ''component name contains invalid characters''),
             notnil x (\<lambda>y. validate (path @ ''.'' @ kind @ ''['' @ name @ '']'') y)])
       entries"

definition Components_validate ::
  "(string \<Rightarrow> string option) \<Rightarrow> string \<Rightarrow> Components \<Rightarrow> ValidationResult \<Rightarrow> ValidationResult"
where
  "Components_validate rc path c = run [
     component_loop path ''schemas'' (Schema_validate rc) (Components_Schemas c),
     component_loop path ''responses'' (Response_validate rc) (Components_Responses c),
     component_loop path ''parameters'' (Parameter_validate rc) (Components_Parameters c),
     component_loop path ''requestBodies'' (RequestBody_validate rc)
       (Components_RequestBodies c),
     component_loop path ''headers'' Header_validate (Components_Headers c),
     component_loop path ''securitySchemes'' SecurityScheme_validate
       (Components_SecuritySchemes c),
     component_loop path ''links'' Link_validate (Components_Links c),
     component_loop path ''callbacks'' (Callback_validate rc) (Components_Callbacks c),
     component_loop path ''pathItems'' (PathItem_validate rc) (Components_PathItems c)]"

text \<open>
  \<^verbatim>\<open>OpenAPI.Validate\<close>, on a receiver that may be \<^verbatim>\<open>nil\<close>. It starts from an empty result.
\<close>

definition Validate :: "(string \<Rightarrow> string option) \<Rightarrow> OpenAPI option \<Rightarrow> ValidationResult" where
  "Validate rc doc =
     (let result = \<lparr>Errors = []\<rparr> in
      case doc of
        None \<Rightarrow> addError [] ''OpenAPI document is nil'' result
      | Some d \<Rightarrow>
          run [
            (if OpenAPI_OpenAPI d = [] then addError ''openapi'' ''required field is missing''
             else check (\<not> prefix ''3.1'' (OpenAPI_OpenAPI d))
                    (addError ''openapi''
                       (''expected 3.1.x version, got '' @ OpenAPI_OpenAPI d))),
            (if OpenAPI_Info d = None then addError ''info'' ''required field is missing''
             else Info_validate ''info'' (the (OpenAPI_Info d))),
            check (\<not> (OpenAPI_Paths d \<noteq> None \<and> length (Paths_Paths (the (OpenAPI_Paths d))) > 0)
                   \<and> \<not> (length (OpenAPI_Webhooks d) > 0)
                   \<and> \<not> (OpenAPI_Components d \<noteq> None))
              (addError [] ''must have at least one of: paths, webhooks, or components''),
            notnil (OpenAPI_Paths d) (\<lambda>x. Paths_validate rc ''paths'' x),
            fold (\<lambda>(name, pathItem).
                    notnil pathItem
                      (\<lambda>x. PathItem_validate rc (''webhooks['' @ name @ '']'') x))
              (OpenAPI_Webhooks d),
            fold (\<lambda>(i, server).
                    notnil server (\<lambda>x. Server_validate (''servers['' @ itoa i @ '']'') x))
              (enumerate 0 (OpenAPI_Servers d)),
            notnil (OpenAPI_Components d) (\<lambda>x. Components_validate rc ''components'' x),
            fold (\<lambda>(i, tag).
                    notnil tag (\<lambda>x. Tag_validate (''tags['' @ itoa i @ '']'') x))
              (enumerate 0 (OpenAPI_Tags d))]
            result)"

section \<open>Findings emitted by a statement\<close>

text \<open>
  A statement \<open>f\<close> of the walk emits findings: it appends a list of findings, the same
  for every result it starts from, and leaves the findings collected before in place.
  \<open>emits Q f\<close> says so, with \<open>Q\<close> true of each appended finding; \<open>emitted f\<close> is the
  appended list. A finding is \<open>under\<close> a path when its own path extends that path, and
  \<open>section_of\<close> attributes a path to a part of the document, numbered in the order in
  which \<^verbatim>\<open>Validate\<close> visits the parts.
\<close>

definition emits ::
  "(ValidationError \<Rightarrow> bool) \<Rightarrow> (ValidationResult \<Rightarrow> ValidationResult) \<Rightarrow> bool" where
  "emits Q f \<longleftrightarrow> (\<exists>es. (\<forall>e\<in>set es. Q e) \<and> (\<forall>r. f r = r\<lparr>Errors := Errors r @ es\<rparr>))"

definition emitted :: "(ValidationResult \<Rightarrow> ValidationResult) \<Rightarrow> ValidationError list" where
  "emitted f = Errors (f \<lparr>Errors = []\<rparr>)"

definition under :: "string \<Rightarrow> ValidationError \<Rightarrow> bool" where
  "under path e = prefix path (Path e)"

definition section_of :: "string \<Rightarrow> nat" where
  "section_of path =
     (if prefix ''openapi'' path then 0
      else if prefix ''info'' path then 1
      else if path = [] then 2
      else if prefix ''paths'' path then 3
      else if prefix ''webhooks'' path then 4
      else if prefix ''servers'' path then 5
      else if prefix ''components'' path then 6
      else if prefix ''tags'' path then 7
      else 8)"

text \<open>
  \<open>staged rank k f\<close>: the findings that \<open>f\<close> emits have rank \<open>k\<close> or more, and are in
  ascending order of rank.
\<close>

definition staged ::
  "(ValidationError \<Rightarrow> nat) \<Rightarrow> nat \<Rightarrow> (ValidationResult \<Rightarrow> ValidationResult) \<Rightarrow> bool" where
  "staged rank k f \<longleftrightarrow> emits (\<lambda>e. k \<le> rank e) f \<and> sorted (map rank (emitted f))"

text \<open>
  \<open>count_findings path msg es\<close> is the number of findings of the list \<open>es\<close> that have
  the path \<open>path\<close> and the message \<open>msg\<close>. A statement is \<open>quiet_at\<close> a path when none of
  the findings it emits has that path.
\<close>

definition count_findings :: "string \<Rightarrow> string \<Rightarrow> ValidationError list \<Rightarrow> nat" where
  "count_findings path msg es = length (filter (\<lambda>e. Path e = path \<and> Message e = msg) es)"

definition quiet_at :: "string \<Rightarrow> (ValidationResult \<Rightarrow> ValidationResult) \<Rightarrow> bool" where
  "quiet_at path f \<longleftrightarrow> emits (\<lambda>e. Path e \<noteq> path) f"

section \<open>Zero values and sample documents\<close>

text \<open>The zero values of the structs, from which the sample documents are built.\<close>

definition Info0 :: Info where
  "Info0 = \<lparr>Info_Title = [], Info_Summary = [], Info_Description = [], Info_TermsOfService = [],
     Info_Contact = None, Info_License = None, Info_Version = [], Info_Extensions = []\<rparr>"

definition OpenAPI0 :: OpenAPI where
  "OpenAPI0 = \<lparr>OpenAPI_OpenAPI = [], OpenAPI_Info = None, OpenAPI_JsonSchemaDialect = [],
     OpenAPI_Servers = [], OpenAPI_Paths = None, OpenAPI_Webhooks = [],
     OpenAPI_Components = None, OpenAPI_Security = [], OpenAPI_Tags = [],
     OpenAPI_ExternalDocs = None, OpenAPI_Extensions = []\<rparr>"

definition Components0 :: Components where
  "Components0 = \<lparr>Components_Schemas = [], Components_Responses = [],
     Components_Parameters = [], Components_Examples = [], Components_RequestBodies = [],
     Components_Headers = [], Components_SecuritySchemes = [], Components_Links = [],
     Components_Callbacks = [], Components_PathItems = [], Components_Extensions = []\<rparr>"

definition Server0 :: Server where
  "Server0 = \<lparr>Server_URL = [], Server_Description = [], Server_Variables = [],
     Server_Extensions = []\<rparr>"

definition Tag0 :: Tag where
  "Tag0 = \<lparr>Tag_Name = [], Tag_Description = [], Tag_ExternalDocs = None, Tag_Extensions = []\<rparr>"

definition Parameter0 :: Parameter where
  "Parameter0 = \<lparr>Parameter_isReference = False, Parameter_Ref = [], Parameter_Summary = [],
     Parameter_Description = [], Parameter_Name = [], Parameter_In = [],
     Parameter_Required = False, Parameter_Deprecated = False,
     Parameter_AllowEmptyValue = False, Parameter_Style = [], Parameter_Explode = None,
     Parameter_AllowReserved = False, Parameter_Schema = None, Parameter_Content = [],
     Parameter_Example = ANil, Parameter_Examples = [], Parameter_Extensions = []\<rparr>"

text \<open>
  A document with one violation in each of five parts: the version is not \<^verbatim>\<open>3.1.x\<close>,
  the title is missing, the server has no URL, a component name has a space, and the
  tag has no name.
\<close>

definition doc_sections :: OpenAPI where
  "doc_sections = OpenAPI0\<lparr>
     OpenAPI_OpenAPI := ''3.0.3'',
     OpenAPI_Info := Some (Info0\<lparr>Info_Version := ''1.0''\<rparr>),
     OpenAPI_Servers := [Some Server0],
     OpenAPI_Components := Some (Components0\<lparr>Components_Schemas := [(''a b'', None)]\<rparr>),
     OpenAPI_Tags := [Some Tag0]\<rparr>"

text \<open>
  A valid document but for a server without URL and a component name with a space.
\<close>

definition doc_server_component :: OpenAPI where
  "doc_server_component = OpenAPI0\<lparr>
     OpenAPI_OpenAPI := ''3.1.0'',
     OpenAPI_Info := Some (Info0\<lparr>Info_Title := ''Test'', Info_Version := ''1.0''\<rparr>),
     OpenAPI_Servers := [Some Server0],
     OpenAPI_Components := Some (Components0\<lparr>Components_Schemas := [(''a b'', None)]\<rparr>)\<rparr>"

text \<open>
  Two schemas with both numeric bounds: \<^verbatim>\<open>minimum=10, maximum=5\<close> and
  \<^verbatim>\<open>minimum=5, maximum=10\<close>. The arguments of the constructor are in the order of the
  fields; the bounds are \<^verbatim>\<open>Maximum\<close> (18th) and \<^verbatim>\<open>Minimum\<close> (20th).
\<close>

definition schema_min10_max5 :: Schema where
  "schema_min10_max5 = Schema None [] [] [] [] None None None None [] None None [] None None
     None None (Some 5) None (Some 10) None None None [] None None None None None None [] []"

definition schema_min5_max10 :: Schema where
  "schema_min5_max10 = Schema None [] [] [] [] None None None None [] None None [] None None
     None None (Some 10) None (Some 5) None None None [] None None None None None None [] []"

text \<open>
  A schema of type \<^verbatim>\<open>string\<close>, and a schema with \<^verbatim>\<open>required=["missing"]\<close> whose only
  property is \<^verbatim>\<open>existing\<close>.
\<close>

definition schema_string :: Schema where
  "schema_string = Schema None [] [] [] [] None None None None [] None None [] None None
     None (Some \<lparr>Type_String = ''string'', Type_Array = []\<rparr>) None None None None None None []
     None None None None None None [] []"

definition schema_required_missing :: Schema where
  "schema_required_missing = Schema None [] [] [] [] None None None None [] None None
     [(''existing'', Some schema_string)] None None
     None (Some \<lparr>Type_String = ''object'', Type_Array = []\<rparr>) None None None None None None []
     None None None None None None [''missing''] []"

text \<open>Path parameters with the styles \<^verbatim>\<open>form\<close> and \<^verbatim>\<open>simple\<close>.\<close>

definition param_path_form :: Parameter where
  "param_path_form = Parameter0\<lparr>Parameter_Name := ''id'', Parameter_In := ''path'',
     Parameter_Required := True, Parameter_Style := ''form'',
     Parameter_Schema := Some schema_string\<rparr>"

definition param_path_simple :: Parameter where
  "param_path_simple = Parameter0\<lparr>Parameter_Name := ''id'', Parameter_In := ''path'',
     Parameter_Required := True, Parameter_Style := ''simple'',
     Parameter_Schema := Some schema_string\<rparr>"

text \<open>
  A document with three unrelated violations, all among its components: a schema with
  \<^verbatim>\<open>minimum\<close> above \<^verbatim>\<open>maximum\<close>, a schema with a required property that is not defined,
  and a path parameter with the style \<^verbatim>\<open>form\<close>.
\<close>

definition doc_three_violations :: OpenAPI where
  "doc_three_violations = OpenAPI0\<lparr>
     OpenAPI_OpenAPI := ''3.1.0'',
     OpenAPI_Info := Some (Info0\<lparr>Info_Title := ''Test'', Info_Version := ''1.0''\<rparr>),
     OpenAPI_Components := Some (Components0\<lparr>
       Components_Schemas :=
         [(''Bounds'', Some schema_min10_max5), (''Req'', Some schema_required_missing)],
       Components_Parameters := [(''badStyle'', Some param_path_form)]\<rparr>)\<rparr>"

text \<open>
  The same three violations, but with the schema that has \<^verbatim>\<open>minimum\<close> above \<^verbatim>\<open>maximum\<close>
  as the schema of a header component, and a query parameter with that schema.
\<close>

definition header_min10_max5 :: Header where
  "header_min10_max5 =
     Header False [] [] [] False False [] None (Some schema_min10_max5) [] ANil [] []"

definition param_query_min10_max5 :: Parameter where
  "param_query_min10_max5 = Parameter0\<lparr>Parameter_Name := ''limit'', Parameter_In := ''query'',
     Parameter_Schema := Some schema_min10_max5\<rparr>"

definition doc_header_bounds :: OpenAPI where
  "doc_header_bounds = OpenAPI0\<lparr>
     OpenAPI_OpenAPI := ''3.1.0'',
     OpenAPI_Info := Some (Info0\<lparr>Info_Title := ''Test'', Info_Version := ''1.0''\<rparr>),
     OpenAPI_Components := Some (Components0\<lparr>
       Components_Schemas := [(''Req'', Some schema_required_missing)],
       Components_Parameters := [(''badStyle'', Some param_path_form)],
       Components_Headers := [(''Limit'', Some header_min10_max5)]\<rparr>)\<rparr>"

section \<open>JSON values and the decoder of the standard library\<close>

text \<open>
  The codec works on JSON texts through \<^verbatim>\<open>encoding/json\<close>. A JSON text is modelled by the
  value it denotes: the members of an object in the order of the text (a name may
  occur twice), a number by the decimal literal \<open>m * 10 ^ e\<close>. A text that is not JSON
  has no value, and every call of \<^verbatim>\<open>json.Unmarshal\<close> fails on it.
\<close>

datatype json =
  JNull
  | JBool bool
  | JNumber int int
  | JString string
  | JArray "json list"
  | JObject "(string \<times> json) list"

text \<open>
  The error of \<^verbatim>\<open>json.Unmarshal\<close> on a value of the wrong kind or on a number out of
  range (\<^verbatim>\<open>*json.UnmarshalTypeError\<close>), with the kind of the JSON value and the name of
  the Go type. The Go error also carries the text of a number and the offset of the
  value; they are left out.
\<close>

datatype error = UnmarshalTypeError string string

fun describe :: "json \<Rightarrow> string" where
  "describe JNull = ''null''"
| "describe (JBool b) = ''bool''"
| "describe (JNumber m e) = ''number''"
| "describe (JString s) = ''string''"
| "describe (JArray xs) = ''array''"
| "describe (JObject kvs) = ''object''"

text \<open>
  \<^verbatim>\<open>strconv.ParseFloat\<close> reports a range error for a literal whose value rounds to an
  infinity: its magnitude is at least \<open>2 ^ 1024 - 2 ^ 970\<close>, half a unit in the last
  place above the largest \<^verbatim>\<open>float64\<close>.
\<close>

definition float64_overflow :: "int \<Rightarrow> int \<Rightarrow> bool" where
  "float64_overflow m e =
     (if 0 \<le> e then 2 ^ 1024 - 2 ^ 970 \<le> \<bar>m\<bar> * 10 ^ nat e
      else (2 ^ 1024 - 2 ^ 970) * 10 ^ nat (- e) \<le> \<bar>m\<bar>)"

text \<open>
  A Go map with string keys that is filled entry by entry: \<open>put k v m\<close> is
  \<^verbatim>\<open>m[k] = v\<close>. An entry that is there keeps its place, a new one goes to the end.
\<close>

fun put :: "string \<Rightarrow> 'a \<Rightarrow> (string \<times> 'a) list \<Rightarrow> (string \<times> 'a) list" where
  "put k v [] = [(k, v)]"
| "put k v ((k', v') # m) = (if k = k' then (k, v) # m else (k', v') # put k v m)"

text \<open>
  \<^verbatim>\<open>json.Unmarshal\<close> into a variable of type \<^verbatim>\<open>any\<close>: the generic value tree, or the error
  of the first number that is out of range.
\<close>

fun unmarshal_any :: "json \<Rightarrow> error + any"
  and unmarshal_any_list :: "json list \<Rightarrow> error + any list"
  and unmarshal_any_members :: "(string \<times> json) list \<Rightarrow> (string \<times> any) list \<Rightarrow> error + (string \<times> any) list"
where
  "unmarshal_any JNull = Inr ANil"
| "unmarshal_any (JBool b) = Inr (ABool b)"
| "unmarshal_any (JNumber m e) =
     (if float64_overflow m e then Inl (UnmarshalTypeError ''number'' ''float64'')
      else Inr (ANumber m e))"
| "unmarshal_any (JString s) = Inr (AString s)"
| "unmarshal_any (JArray xs) =
     (case unmarshal_any_list xs of Inl err \<Rightarrow> Inl err | Inr vs \<Rightarrow> Inr (ASlice vs))"
| "unmarshal_any (JObject kvs) =
     (case unmarshal_any_members kvs [] of Inl err \<Rightarrow> Inl err | Inr m \<Rightarrow> Inr (AMap m))"
| "unmarshal_any_list [] = Inr []"
| "unmarshal_any_list (x # xs) =
     (case unmarshal_any x of
        Inl err \<Rightarrow> Inl err
      | Inr v \<Rightarrow> (case unmarshal_any_list xs of Inl err \<Rightarrow> Inl err | Inr vs \<Rightarrow> Inr (v # vs)))"
| "unmarshal_any_members [] m = Inr m"
| "unmarshal_any_members ((k, x) # kvs) m =
     (case unmarshal_any x of
        Inl err \<Rightarrow> Inl err
      | Inr v \<Rightarrow> unmarshal_any_members kvs (put k v m))"

text \<open>
  \<^verbatim>\<open>json.Unmarshal\<close> into a \<^verbatim>\<open>bool\<close> variable that holds \<open>b0\<close>: \<^verbatim>\<open>null\<close> leaves the variable
  as it is.
\<close>

fun unmarshal_bool :: "json \<Rightarrow> bool \<Rightarrow> error + bool" where
  "unmarshal_bool (JBool b) b0 = Inr b"
| "unmarshal_bool JNull b0 = Inr b0"
| "unmarshal_bool v b0 = Inl (UnmarshalTypeError (describe v) ''bool'')"

text \<open>
  \<^verbatim>\<open>json.Unmarshal\<close> into a \<^verbatim>\<open>nil\<close> variable of type \<^verbatim>\<open>map[string]json.RawMessage\<close>: the
  members of the object with their values undecoded, a later member of the same name
  replacing an earlier one.
\<close>

fun unmarshal_raw :: "json \<Rightarrow> error + (string \<times> json) list" where
  "unmarshal_raw (JObject kvs) = Inr (fold (\<lambda>(k, v). put k v) kvs [])"
| "unmarshal_raw JNull = Inr []"
| "unmarshal_raw v = Inl (UnmarshalTypeError (describe v) ''map[string]json.RawMessage'')"

subsection \<open>Decoding into the fields of a struct\<close>

text \<open>
  The decoder matches the name of a member with the name of a field exactly or, failing
  that, after folding the case of both. \<open>foldName\<close> folds a name as the decoder does, on
  the bytes of its UTF-8 form: a small ASCII letter becomes the capital one (\<open>upper\<close>
  clears the bit of value 32), the Kelvin
  sign (bytes E2 84 AA) becomes \<^verbatim>\<open>K\<close> and the long s (bytes C5 BF) becomes \<^verbatim>\<open>S\<close>. No
  other letter folds to an ASCII letter, and the names of the fields are ASCII, so
  two names match if and only if their folds are equal. The fields of each struct
  modelled here have different folds.
\<close>

definition upper :: "char \<Rightarrow> char" where
  "upper c = (case c of Char b0 b1 b2 b3 b4 b5 b6 b7 \<Rightarrow> Char b0 b1 b2 b3 b4 False b6 b7)"

fun foldName :: "string \<Rightarrow> string" where
  "foldName [] = []"
| "foldName (c # cs) =
     (if c = CHR 0xE2 \<and> take 2 cs = [CHR 0x84, CHR 0xAA] then CHR ''K'' # foldName (drop 2 cs)
      else if c = CHR 0xC5 \<and> take 1 cs = [CHR 0xBF] then CHR ''S'' # foldName (drop 1 cs)
      else if (97::nat) \<le> of_char c \<and> of_char c \<le> (122::nat)
        then upper c # foldName cs
      else c # foldName cs)"

text \<open>
  While it decodes a value the decoder keeps the first type error it meets and goes
  on; the call fails with that error when it is done. \<open>save\<close> keeps the first error. An
  error that an \<^verbatim>\<open>UnmarshalJSON\<close> method returns ends the call at once. So a step of the
  decoder, on a field that holds \<open>cur\<close>, yields either such an error (\<open>Inl\<close>) or the kept
  error and the new value of the field.
\<close>

definition save :: "error \<Rightarrow> error option \<Rightarrow> error option" where
  "save err saved = (case saved of None \<Rightarrow> Some err | Some e \<Rightarrow> Some e)"

fun dec_string :: "json \<Rightarrow> error option \<Rightarrow> string \<Rightarrow> error + (error option \<times> string)" where
  "dec_string (JString s) saved cur = Inr (saved, s)"
| "dec_string JNull saved cur = Inr (saved, cur)"
| "dec_string v saved cur = Inr (save (UnmarshalTypeError (describe v) ''string'') saved, cur)"

fun dec_bool :: "json \<Rightarrow> error option \<Rightarrow> bool \<Rightarrow> error + (error option \<times> bool)" where
  "dec_bool (JBool b) saved cur = Inr (saved, b)"
| "dec_bool JNull saved cur = Inr (saved, cur)"
| "dec_bool v saved cur = Inr (save (UnmarshalTypeError (describe v) ''bool'') saved, cur)"

fun dec_bool_ptr ::
  "json \<Rightarrow> error option \<Rightarrow> bool option \<Rightarrow> error + (error option \<times> bool option)" where
  "dec_bool_ptr (JBool b) saved cur = Inr (saved, Some b)"
| "dec_bool_ptr JNull saved cur = Inr (saved, None)"
| "dec_bool_ptr v saved cur = Inr (save (UnmarshalTypeError (describe v) ''bool'') saved, cur)"

definition dec_any :: "json \<Rightarrow> error option \<Rightarrow> any \<Rightarrow> error + (error option \<times> any)" where
  "dec_any v saved cur =
     (case unmarshal_any v of
        Inl err \<Rightarrow> Inr (save err saved, cur)
      | Inr a \<Rightarrow> Inr (saved, a))"

text \<open>
  A field that is a pointer to a node with an \<^verbatim>\<open>UnmarshalJSON\<close> method: \<^verbatim>\<open>null\<close> sets it to
  \<^verbatim>\<open>nil\<close>; any other value is handed to the method \<open>um\<close> of the node, on the node that
  the field points to or, when it is \<^verbatim>\<open>nil\<close>, on a new node \<open>zero\<close>.
\<close>

definition dec_node_ptr ::
  "(json \<Rightarrow> 'a \<Rightarrow> error + 'a) \<Rightarrow> 'a \<Rightarrow> json \<Rightarrow> error option \<Rightarrow> 'a option
     \<Rightarrow> error + (error option \<times> 'a option)" where
  "dec_node_ptr um zero v saved cur =
     (if v = JNull then Inr (saved, None)
      else case um v (case cur of None \<Rightarrow> zero | Some x \<Rightarrow> x) of
             Inl err \<Rightarrow> Inl err
           | Inr x \<Rightarrow> Inr (saved, Some x))"

text \<open>
  A field that is a map from names to such pointers: \<^verbatim>\<open>null\<close> sets it to \<^verbatim>\<open>nil\<close>, an
  object adds its members to the map, each decoded on a new node.
\<close>

fun dec_node_members ::
  "(json \<Rightarrow> 'a \<Rightarrow> error + 'a) \<Rightarrow> 'a \<Rightarrow> (string \<times> json) list \<Rightarrow> error option
     \<Rightarrow> (string \<times> 'a option) list \<Rightarrow> error + (error option \<times> (string \<times> 'a option) list)"
where
  "dec_node_members um zero [] saved m = Inr (saved, m)"
| "dec_node_members um zero ((k, v) # kvs) saved m =
     (case dec_node_ptr um zero v saved None of
        Inl err \<Rightarrow> Inl err
      | Inr (saved', x) \<Rightarrow> dec_node_members um zero kvs saved' (put k x m))"

fun dec_node_map ::
  "(json \<Rightarrow> 'a \<Rightarrow> error + 'a) \<Rightarrow> 'a \<Rightarrow> json \<Rightarrow> error option
     \<Rightarrow> (string \<times> 'a option) list \<Rightarrow> error + (error option \<times> (string \<times> 'a option) list)"
where
  "dec_node_map um zero (JObject kvs) saved cur = dec_node_members um zero kvs saved cur"
| "dec_node_map um zero JNull saved cur = Inr (saved, [])"
| "dec_node_map um zero v saved cur =
     Inr (save (UnmarshalTypeError (describe v) ''map'') saved, cur)"

text \<open>
  \<open>set_field step put_back\<close> runs the step of a field and puts the new value back into
  the struct.
\<close>

definition set_field ::
  "error + (error option \<times> 'f) \<Rightarrow> ('f \<Rightarrow> 's) \<Rightarrow> error + (error option \<times> 's)" where
  "set_field step put_back =
     (case step of Inl err \<Rightarrow> Inl err | Inr (saved, x) \<Rightarrow> Inr (saved, put_back x))"

text \<open>
  \<^verbatim>\<open>json.Unmarshal\<close> into a struct variable that holds \<open>zero\<close>, given the step \<open>member\<close>
  that decodes one member of an object: the members are decoded in their order; \<^verbatim>\<open>null\<close>
  leaves the variable as it is; a value of another kind is a type error.
\<close>

fun dec_members ::
  "((string \<times> json) \<Rightarrow> error option \<Rightarrow> 's \<Rightarrow> error + (error option \<times> 's))
     \<Rightarrow> (string \<times> json) list \<Rightarrow> error option \<Rightarrow> 's \<Rightarrow> error + (error option \<times> 's)" where
  "dec_members member [] saved s = Inr (saved, s)"
| "dec_members member (kv # kvs) saved s =
     (case member kv saved s of
        Inl err \<Rightarrow> Inl err
      | Inr (saved', s') \<Rightarrow> dec_members member kvs saved' s')"

fun unmarshal_struct ::
  "((string \<times> json) \<Rightarrow> error option \<Rightarrow> 's \<Rightarrow> error + (error option \<times> 's))
     \<Rightarrow> string \<Rightarrow> 's \<Rightarrow> json \<Rightarrow> error + 's" where
  "unmarshal_struct member name zero (JObject kvs) =
     (case dec_members member kvs None zero of
        Inl err \<Rightarrow> Inl err
      | Inr (Some err, s) \<Rightarrow> Inl err
      | Inr (None, s) \<Rightarrow> Inr s)"
| "unmarshal_struct member name zero JNull = Inr zero"
| "unmarshal_struct member name zero v = Inl (UnmarshalTypeError (describe v) name)"

section \<open>The extension codec\<close>

text \<open>
  \<^verbatim>\<open>extractExtensions\<close>. The result is a map; an empty result is \<^verbatim>\<open>nil\<close>, which is the empty
  list as well.
\<close>

definition extractExtensions ::
  "(string \<times> json) list \<Rightarrow> string list \<Rightarrow> (string \<times> any) list" where
  "extractExtensions raw knownFields =
     (let extensions =
        fold (\<lambda>(key, value) extensions.
                if prefix ''x-'' key \<and> key \<notin> set knownFields then
                  (case unmarshal_any value of
                     Inr v \<Rightarrow> put key v extensions
                   | Inl err \<Rightarrow> extensions)
                else extensions)
          raw []
      in if length extensions = 0 then [] else extensions)"

section \<open>The codec of the schema node\<close>

text \<open>Assignments to the fields \<^verbatim>\<open>boolValue\<close> and \<^verbatim>\<open>Extensions\<close> of a schema.\<close>

fun Schema_set_boolValue :: "bool option \<Rightarrow> Schema \<Rightarrow> Schema" where
  "Schema_set_boolValue v (Schema a1 a2 a3 a4 a5 a6 a7 a8 a9 a10 a11 a12 a13 a14 a15 a16
      a17 a18 a19 a20 a21 a22 a23 a24 a25 a26 a27 a28 a29 a30 a31 a32) =
     Schema v a2 a3 a4 a5 a6 a7 a8 a9 a10 a11 a12 a13 a14 a15 a16
      a17 a18 a19 a20 a21 a22 a23 a24 a25 a26 a27 a28 a29 a30 a31 a32"

fun Schema_set_Extensions :: "(string \<times> any) list \<Rightarrow> Schema \<Rightarrow> Schema" where
  "Schema_set_Extensions v (Schema a1 a2 a3 a4 a5 a6 a7 a8 a9 a10 a11 a12 a13 a14 a15 a16
      a17 a18 a19 a20 a21 a22 a23 a24 a25 a26 a27 a28 a29 a30 a31 a32) =
     Schema a1 a2 a3 a4 a5 a6 a7 a8 a9 a10 a11 a12 a13 a14 a15 a16
      a17 a18 a19 a20 a21 a22 a23 a24 a25 a26 a27 a28 a29 a30 a31 v"

definition schemaKnownFields :: "string list" where
  "schemaKnownFields = [
     ''$id'', ''$schema'', ''$ref'', ''$anchor'', ''$dynamicRef'', ''$dynamicAnchor'', ''$defs'',
     ''$comment'', ''$vocabulary'',
     ''allOf'', ''anyOf'', ''oneOf'', ''not'', ''if'', ''then'', ''else'', ''dependentSchemas'',
     ''prefixItems'', ''items'', ''contains'', ''properties'', ''patternProperties'',
     ''additionalProperties'', ''propertyNames'', ''unevaluatedItems'',
     ''unevaluatedProperties'',
     ''type'', ''enum'', ''const'', ''multipleOf'', ''maximum'', ''exclusiveMaximum'', ''minimum'',
     ''exclusiveMinimum'',
     ''maxLength'', ''minLength'', ''pattern'', ''maxItems'', ''minItems'', ''uniqueItems'',
     ''maxContains'', ''minContains'',
     ''maxProperties'', ''minProperties'', ''required'', ''dependentRequired'', ''format'',
     ''contentEncoding'', ''contentMediaType'', ''contentSchema'',
     ''title'', ''description'', ''default'', ''deprecated'', ''readOnly'', ''writeOnly'',
     ''examples'',
     ''discriminator'', ''xml'', ''externalDocs'', ''example'']"

text \<open>
  \<^verbatim>\<open>Schema.UnmarshalJSON\<close>, on the receiver \<open>s\<close>; it returns the error or the receiver as
  the call leaves it. The argument \<open>unmarshal_alias\<close> stands for \<^verbatim>\<open>json.Unmarshal\<close> into a
  variable of the type \<^verbatim>\<open>schemaAlias\<close>, which decodes the keywords of the struct from
  their tags.
\<close>

definition Schema_UnmarshalJSON ::
  "(json \<Rightarrow> error + Schema) \<Rightarrow> json \<Rightarrow> Schema \<Rightarrow> error + Schema" where
  "Schema_UnmarshalJSON unmarshal_alias data s =
     (case unmarshal_bool data False of
        Inr b \<Rightarrow> Inr (Schema_set_boolValue (Some b) s)
      | Inl _ \<Rightarrow>
          (case unmarshal_alias data of
             Inl err \<Rightarrow> Inl err
           | Inr alias \<Rightarrow>
               (case unmarshal_raw data of
                  Inl err \<Rightarrow> Inl err
                | Inr raw \<Rightarrow>
                    Inr (Schema_set_Extensions (extractExtensions raw schemaKnownFields)
                           alias))))"

text \<open>
  \<^verbatim>\<open>json.Marshal\<close> of a generic value and of a \<^verbatim>\<open>bool\<close>. A map is written with its keys
  in ascending order.
\<close>

fun marshal_any :: "any \<Rightarrow> json" where
  "marshal_any ANil = JNull"
| "marshal_any (ABool b) = JBool b"
| "marshal_any (ANumber m e) = JNumber m e"
| "marshal_any (AString s) = JString s"
| "marshal_any (ASlice xs) = JArray (map marshal_any xs)"
| "marshal_any (AMap kvs) = JObject (sort_key fst (map (\<lambda>(k, v). (k, marshal_any v)) kvs))"

definition marshal_bool :: "bool \<Rightarrow> error + json" where
  "marshal_bool b = Inr (JBool b)"

text \<open>
  \<^verbatim>\<open>marshalWithExtensions\<close>. The argument \<open>marshal_v\<close> is the outcome of \<^verbatim>\<open>json.Marshal(v)\<close>.
\<close>

definition marshalWithExtensions ::
  "error + json \<Rightarrow> (string \<times> any) list \<Rightarrow> error + json" where
  "marshalWithExtensions marshal_v extensions =
     (case marshal_v of
        Inl err \<Rightarrow> Inl err
      | Inr data \<Rightarrow>
          if length extensions = 0 then Inr data
          else (case unmarshal_raw data of
                  Inl err \<Rightarrow> Inl err
                | Inr m \<Rightarrow>
                    Inr (JObject (sort_key fst
                           (fold (\<lambda>(key, value) m. put key (marshal_any value) m)
                              extensions m)))))"

text \<open>
  \<^verbatim>\<open>Schema.MarshalJSON\<close>. The argument \<open>marshal_alias\<close> stands for \<^verbatim>\<open>json.Marshal\<close> of a value
  of the type \<^verbatim>\<open>schemaAlias\<close>.
\<close>

definition Schema_MarshalJSON :: "(Schema \<Rightarrow> error + json) \<Rightarrow> Schema \<Rightarrow> error + json" where
  "Schema_MarshalJSON marshal_alias s =
     (if Schema_boolValue s \<noteq> None then marshal_bool (the (Schema_boolValue s))
      else marshalWithExtensions (marshal_alias s) (Schema_Extensions s))"

section \<open>The codec of the parameter node\<close>

definition parameterKnownFields :: "string list" where
  "parameterKnownFields = [
     ''$ref'', ''summary'', ''description'', ''name'', ''in'', ''required'', ''deprecated'',
     ''allowEmptyValue'', ''style'', ''explode'', ''allowReserved'', ''schema'',
     ''content'', ''example'', ''examples'']"

text \<open>
  The \<^verbatim>\<open>UnmarshalJSON\<close> methods of the nodes that a parameter holds, each with the zero
  value of its node. \<^verbatim>\<open>encoding/json\<close> calls them for the fields \<^verbatim>\<open>schema\<close>, \<^verbatim>\<open>content\<close> and
  \<^verbatim>\<open>examples\<close>.
\<close>

record node_decoders =
  um_Schema :: "json \<Rightarrow> Schema \<Rightarrow> error + Schema"
  um_MediaType :: "json \<Rightarrow> MediaType \<Rightarrow> error + MediaType"
  zero_MediaType :: MediaType
  um_Example :: "json \<Rightarrow> Example \<Rightarrow> error + Example"
  zero_Example :: Example

text \<open>
  One member of an object, decoded into the struct \<^verbatim>\<open>parameterAlias\<close>, whose fields and
  tags are those of \<^verbatim>\<open>Parameter\<close>. The field \<^verbatim>\<open>isReference\<close> is not exported and the field
  \<^verbatim>\<open>Extensions\<close> has the tag \<^verbatim>\<open>-\<close>: no member sets them. A member that matches no field is
  skipped.
\<close>

definition parameterAlias_member ::
  "node_decoders \<Rightarrow> (string \<times> json) \<Rightarrow> error option \<Rightarrow> Parameter
     \<Rightarrow> error + (error option \<times> Parameter)" where
  "parameterAlias_member ds kv saved p =
     (let k = foldName (fst kv); v = snd kv in
      if k = foldName ''$ref'' then
        set_field (dec_string v saved (Parameter_Ref p)) (\<lambda>x. p\<lparr>Parameter_Ref := x\<rparr>)
      else if k = foldName ''summary'' then
        set_field (dec_string v saved (Parameter_Summary p)) (\<lambda>x. p\<lparr>Parameter_Summary := x\<rparr>)
      else if k = foldName ''description'' then
        set_field (dec_string v saved (Parameter_Description p))
          (\<lambda>x. p\<lparr>Parameter_Description := x\<rparr>)
      else if k = foldName ''name'' then
        set_field (dec_string v saved (Parameter_Name p)) (\<lambda>x. p\<lparr>Parameter_Name := x\<rparr>)
      else if k = foldName ''in'' then
        set_field (dec_string v saved (Parameter_In p)) (\<lambda>x. p\<lparr>Parameter_In := x\<rparr>)
      else if k = foldName ''required'' then
        set_field (dec_bool v saved (Parameter_Required p)) (\<lambda>x. p\<lparr>Parameter_Required := x\<rparr>)
      else if k = foldName ''deprecated'' then
        set_field (dec_bool v saved (Parameter_Deprecated p))
          (\<lambda>x. p\<lparr>Parameter_Deprecated := x\<rparr>)
      else if k = foldName ''allowEmptyValue'' then
        set_field (dec_bool v saved (Parameter_AllowEmptyValue p))
          (\<lambda>x. p\<lparr>Parameter_AllowEmptyValue := x\<rparr>)
      else if k = foldName ''style'' then
        set_field (dec_string v saved (Parameter_Style p)) (\<lambda>x. p\<lparr>Parameter_Style := x\<rparr>)
      else if k = foldName ''explode'' then
        set_field (dec_bool_ptr v saved (Parameter_Explode p))
          (\<lambda>x. p\<lparr>Parameter_Explode := x\<rparr>)
      else if k = foldName ''allowReserved'' then
        set_field (dec_bool v saved (Parameter_AllowReserved p))
          (\<lambda>x. p\<lparr>Parameter_AllowReserved := x\<rparr>)
      else if k = foldName ''schema'' then
        set_field (dec_node_ptr (um_Schema ds) Schema0 v saved (Parameter_Schema p))
          (\<lambda>x. p\<lparr>Parameter_Schema := x\<rparr>)
      else if k = foldName ''content'' then
        set_field
          (dec_node_map (um_MediaType ds) (zero_MediaType ds) v saved (Parameter_Content p))
          (\<lambda>x. p\<lparr>Parameter_Content := x\<rparr>)
      else if k = foldName ''example'' then
        set_field (dec_any v saved (Parameter_Example p)) (\<lambda>x. p\<lparr>Parameter_Example := x\<rparr>)
      else if k = foldName ''examples'' then
        set_field
          (dec_node_map (um_Example ds) (zero_Example ds) v saved (Parameter_Examples p))
          (\<lambda>x. p\<lparr>Parameter_Examples := x\<rparr>)
      else Inr (saved, p))"

definition unmarshal_parameterAlias :: "node_decoders \<Rightarrow> json \<Rightarrow> error + Parameter" where
  "unmarshal_parameterAlias ds data =
     unmarshal_struct (parameterAlias_member ds) ''parameterAlias'' Parameter0 data"

text \<open>
  \<^verbatim>\<open>Parameter.UnmarshalJSON\<close>. The receiver is overwritten by the decoded alias, so the
  result does not depend on what it held.
\<close>

definition Parameter_UnmarshalJSON :: "node_decoders \<Rightarrow> json \<Rightarrow> error + Parameter" where
  "Parameter_UnmarshalJSON ds data =
     (case unmarshal_parameterAlias ds data of
        Inl err \<Rightarrow> Inl err
      | Inr alias \<Rightarrow>
          (let p = alias;
               p = (if Parameter_Ref p \<noteq> [] then p\<lparr>Parameter_isReference := True\<rparr> else p)
           in case unmarshal_raw data of
                Inl err \<Rightarrow> Inl err
              | Inr raw \<Rightarrow>
                  Inr (p\<lparr>Parameter_Extensions :=
                          extractExtensions raw parameterKnownFields\<rparr>)))"

section \<open>The codec of the callback node\<close>

text \<open>
  The two structs that \<^verbatim>\<open>Callback.UnmarshalJSON\<close> decodes into: the anonymous struct with
  the field \<^verbatim>\<open>Ref\<close>, and \<^verbatim>\<open>callbackRefOnly\<close>.
\<close>

record callbackRefOnly =
  callbackRefOnly_Ref :: string
  callbackRefOnly_Summary :: string
  callbackRefOnly_Description :: string

definition ref_member ::
  "(string \<times> json) \<Rightarrow> error option \<Rightarrow> string \<Rightarrow> error + (error option \<times> string)" where
  "ref_member kv saved ref =
     (if foldName (fst kv) = foldName ''$ref'' then dec_string (snd kv) saved ref
      else Inr (saved, ref))"

definition callbackRefOnly_member ::
  "(string \<times> json) \<Rightarrow> error option \<Rightarrow> callbackRefOnly
     \<Rightarrow> error + (error option \<times> callbackRefOnly)" where
  "callbackRefOnly_member kv saved r =
     (let k = foldName (fst kv); v = snd kv in
      if k = foldName ''$ref'' then
        set_field (dec_string v saved (callbackRefOnly_Ref r)) (\<lambda>x. r\<lparr>callbackRefOnly_Ref := x\<rparr>)
      else if k = foldName ''summary'' then
        set_field (dec_string v saved (callbackRefOnly_Summary r))
          (\<lambda>x. r\<lparr>callbackRefOnly_Summary := x\<rparr>)
      else if k = foldName ''description'' then
        set_field (dec_string v saved (callbackRefOnly_Description r))
          (\<lambda>x. r\<lparr>callbackRefOnly_Description := x\<rparr>)
      else Inr (saved, r))"

text \<open>Assignments to the fields of a callback.\<close>

fun Callback_set_reference :: "string \<Rightarrow> string \<Rightarrow> string \<Rightarrow> Callback \<Rightarrow> Callback" where
  "Callback_set_reference ref summary description (Callback a1 a2 a3 a4 a5 a6) =
     Callback True ref summary description a5 a6"

fun Callback_set_Paths :: "(string \<times> PathItem option) list \<Rightarrow> Callback \<Rightarrow> Callback" where
  "Callback_set_Paths v (Callback a1 a2 a3 a4 a5 a6) = Callback a1 a2 a3 a4 v a6"

fun Callback_set_Extensions :: "(string \<times> any) list \<Rightarrow> Callback \<Rightarrow> Callback" where
  "Callback_set_Extensions v (Callback a1 a2 a3 a4 a5 a6) = Callback a1 a2 a3 a4 a5 v"

definition Callback0 :: Callback where
  "Callback0 = Callback False [] [] [] [] []"

text \<open>
  The loop of \<^verbatim>\<open>Callback.UnmarshalJSON\<close> over the raw members: it fills the two maps and
  returns at the first value that does not decode. The argument \<open>unmarshal_PathItem\<close>
  stands for \<^verbatim>\<open>json.Unmarshal\<close> into a new \<^verbatim>\<open>PathItem\<close>, which runs
  \<^verbatim>\<open>PathItem.UnmarshalJSON\<close>.
\<close>

fun callback_members ::
  "(json \<Rightarrow> error + PathItem) \<Rightarrow> (string \<times> json) list
     \<Rightarrow> (string \<times> PathItem option) list \<Rightarrow> (string \<times> any) list
     \<Rightarrow> error + ((string \<times> PathItem option) list \<times> (string \<times> any) list)" where
  "callback_members unmarshal_PathItem [] paths extensions = Inr (paths, extensions)"
| "callback_members unmarshal_PathItem ((key, value) # raw) paths extensions =
     (if prefix ''x-'' key then
        (case unmarshal_any value of
           Inl err \<Rightarrow> Inl err
         | Inr ext \<Rightarrow> callback_members unmarshal_PathItem raw paths (put key ext extensions))
      else
        (case unmarshal_PathItem value of
           Inl err \<Rightarrow> Inl err
         | Inr pathItem \<Rightarrow>
             callback_members unmarshal_PathItem raw (put key (Some pathItem) paths)
               extensions))"

text \<open>\<^verbatim>\<open>Callback.UnmarshalJSON\<close>, on the receiver \<open>c\<close>.\<close>

definition Callback_UnmarshalJSON ::
  "(json \<Rightarrow> error + PathItem) \<Rightarrow> json \<Rightarrow> Callback \<Rightarrow> error + Callback" where
  "Callback_UnmarshalJSON unmarshal_PathItem data c =
     (let ref = unmarshal_struct ref_member ''struct'' [] data in
      if (case ref of Inl err \<Rightarrow> False | Inr r \<Rightarrow> r \<noteq> []) then
        (case unmarshal_struct callbackRefOnly_member ''callbackRefOnly''
                \<lparr>callbackRefOnly_Ref = [], callbackRefOnly_Summary = [],
                 callbackRefOnly_Description = []\<rparr> data of
           Inl err \<Rightarrow> Inl err
         | Inr refOnly \<Rightarrow>
             Inr (Callback_set_reference (callbackRefOnly_Ref refOnly)
                    (callbackRefOnly_Summary refOnly) (callbackRefOnly_Description refOnly) c))
      else
        (case unmarshal_raw data of
           Inl err \<Rightarrow> Inl err
         | Inr raw \<Rightarrow>
             (case callback_members unmarshal_PathItem raw [] [] of
                Inl err \<Rightarrow> Inl err
              | Inr (paths, extensions) \<Rightarrow>
                  Inr (Callback_set_Extensions
                         (if length extensions = 0 then [] else extensions)
                         (Callback_set_Paths paths c)))))"

section \<open>Sample inputs of the codec\<close>

text \<open>
  Decoders for the nodes below a parameter and below a callback that reject every
  value. The sample inputs hold no schema, media type, example or path item, so the
  codec never calls them there.
\<close>

definition reject_nodes :: node_decoders where
  "reject_nodes = \<lparr>
     um_Schema = (\<lambda>v s. Inl (UnmarshalTypeError (describe v) ''Schema'')),
     um_MediaType = (\<lambda>v m. Inl (UnmarshalTypeError (describe v) ''MediaType'')),
     zero_MediaType = MediaType None ANil [] [],
     um_Example = (\<lambda>v e. Inl (UnmarshalTypeError (describe v) ''Example'')),
     zero_Example = \<lparr>Example_isReference = False, Example_Ref = [], Example_Summary = [],
       Example_Description = [], Example_Value = ANil, Example_ExternalValue = [],
       Example_Extensions = []\<rparr>\<rparr>"

definition reject_PathItem :: "json \<Rightarrow> error + PathItem" where
  "reject_PathItem v = Inl (UnmarshalTypeError (describe v) ''PathItem'')"

text \<open>
  The texts \<^verbatim>\<open>{"$ref": "#/components/parameters/id", "name": "id"}\<close>,
  \<^verbatim>\<open>{"$ref": "#/components/parameters/id", "summary": "the id", "x-note": "kept"}\<close>,
  \<^verbatim>\<open>{"name": "id", "in": "query", "x-big": 1e999, "x-note": "kept"}\<close> and
  \<^verbatim>\<open>{"x-big": 1e999}\<close>. The number \<^verbatim>\<open>1e999\<close> is a JSON number that no \<^verbatim>\<open>float64\<close> holds.
\<close>

definition json_ref_with_name :: json where
  "json_ref_with_name =
     JObject [(''$ref'', JString ''#/components/parameters/id''), (''name'', JString ''id'')]"

definition json_ref_with_extension :: json where
  "json_ref_with_extension =
     JObject [(''$ref'', JString ''#/components/parameters/id''),
              (''summary'', JString ''the id''), (''x-note'', JString ''kept'')]"

definition json_parameter_big :: json where
  "json_parameter_big =
     JObject [(''name'', JString ''id''), (''in'', JString ''query''),
              (''x-big'', JNumber 1 999), (''x-note'', JString ''kept'')]"

definition json_callback_big :: json where
  "json_callback_big = JObject [(''x-big'', JNumber 1 999)]"

section \<open>Laws of emitting statements\<close>

lemma emitsI:
  "(\<And>r. f r = r\<lparr>Errors := Errors r @ es\<rparr>) \<Longrightarrow> (\<And>e. e \<in> set es \<Longrightarrow> Q e) \<Longrightarrow> emits Q f"
  unfolding emits_def by blast

lemma emits_apply: "emits Q f \<Longrightarrow> f r = r\<lparr>Errors := Errors r @ emitted f\<rparr>"
  unfolding emits_def emitted_def by auto

lemma emits_Errors: "emits Q f \<Longrightarrow> Errors (f r) = Errors r @ emitted f"
  by (simp add: emits_apply)

lemma emits_Errors_empty:
  "emits Q f \<Longrightarrow> Errors (f r) = Errors r @ Errors (f \<lparr>Errors = []\<rparr>)"
  using emits_Errors [of Q f r] unfolding emitted_def .

lemma emits_emitted: "emits Q f \<Longrightarrow> e \<in> set (emitted f) \<Longrightarrow> Q e"
  unfolding emits_def emitted_def by auto

lemma emits_mono: "emits Q f \<Longrightarrow> (\<And>e. Q e \<Longrightarrow> Q' e) \<Longrightarrow> emits Q' f"
  unfolding emits_def by blast

lemma emits_skip: "emits Q (\<lambda>result. result)"
  by (rule emitsI [where es = "[]"]) auto

lemma emits_addError: "Q \<lparr>Path = p, Message = m\<rparr> \<Longrightarrow> emits Q (addError p m)"
  by (rule emitsI [where es = "[\<lparr>Path = p, Message = m\<rparr>]"]) (auto simp: addError_def)

lemma emits_check: "(c \<Longrightarrow> emits Q f) \<Longrightarrow> emits Q (check c f)"
  by (cases c) (auto simp: check_def [abs_def] emits_skip)

lemma emits_if: "(c \<Longrightarrow> emits Q f) \<Longrightarrow> (\<not> c \<Longrightarrow> emits Q g) \<Longrightarrow> emits Q (if c then f else g)"
  by simp

lemma emits_notnil: "(\<And>x. p = Some x \<Longrightarrow> emits Q (f x)) \<Longrightarrow> emits Q (notnil p f)"
  by (cases p) (auto simp: notnil_def [abs_def] emits_skip)

lemma emits_seq:
  assumes f: "emits Q f" and g: "emits Q g"
  shows "emits Q (\<lambda>r. g (f r))"
  by (rule emitsI [where es = "emitted f @ emitted g"])
     (auto simp: emits_apply [OF f] emits_apply [OF g]
           dest: emits_emitted [OF f] emits_emitted [OF g])

lemma emits_fold: "(\<And>x. x \<in> set xs \<Longrightarrow> emits Q (f x)) \<Longrightarrow> emits Q (fold f xs)"
proof (induction xs)
  case Nil
  show ?case using emits_skip [of Q] by (simp add: id_def)
next
  case (Cons x xs)
  have "emits Q (\<lambda>r. fold f xs (f x r))"
    by (rule emits_seq) (simp_all add: Cons)
  then show ?case by (simp add: comp_def)
qed

lemma run_Nil: "run [] = (\<lambda>r. r)"
  by (simp add: run_def fun_eq_iff)

lemma run_Cons: "run (f # fs) = (\<lambda>r. run fs (f r))"
  by (simp add: run_def fun_eq_iff)

lemma emits_run_Nil: "emits Q (run [])"
  by (simp add: run_Nil emits_skip)

lemma emits_run_Cons: "emits Q f \<Longrightarrow> emits Q (run fs) \<Longrightarrow> emits Q (run (f # fs))"
  by (simp add: run_Cons emits_seq)

lemma emits_case_prod:
  "(\<And>a b. (a, b) = x \<Longrightarrow> emits Q (f a b)) \<Longrightarrow> emits Q (case x of (a, b) \<Rightarrow> f a b)"
  by (cases x) simp

lemmas emits_intros =
  emits_if emits_skip emits_run_Nil emits_run_Cons emits_check emits_notnil emits_fold
  emits_case_prod emits_addError

lemma emitted_skip: "emitted (\<lambda>result. result) = []"
  by (simp add: emitted_def)

lemma emitted_addError: "emitted (addError p m) = [\<lparr>Path = p, Message = m\<rparr>]"
  by (simp add: emitted_def addError_def)

lemma emitted_check: "emitted (check c f) = (if c then emitted f else [])"
  by (simp add: emitted_def check_def)

lemma emitted_notnil:
  "emitted (notnil p f) = (case p of None \<Rightarrow> [] | Some x \<Rightarrow> emitted (f x))"
  by (simp add: emitted_def notnil_def split: option.splits)

lemma emitted_seq:
  assumes "emits Q f" and "emits Q' g"
  shows "emitted (\<lambda>r. g (f r)) = emitted f @ emitted g"
proof -
  have "emitted (\<lambda>r. g (f r)) = Errors (g (f \<lparr>Errors = []\<rparr>))"
    by (simp add: emitted_def)
  also have "\<dots> = Errors (f \<lparr>Errors = []\<rparr>) @ emitted g"
    by (rule emits_Errors [OF assms(2)])
  also have "Errors (f \<lparr>Errors = []\<rparr>) = emitted f"
    by (simp add: emitted_def)
  finally show ?thesis .
qed

lemma emitted_run_Nil: "emitted (run []) = []"
  by (simp add: run_Nil emitted_skip)

lemma emitted_run_Cons:
  "emits Q f \<Longrightarrow> emits Q' (run fs) \<Longrightarrow> emitted (run (f # fs)) = emitted f @ emitted (run fs)"
  by (simp only: run_Cons emitted_seq)

lemma filter_emitted_none:
  "emits Q f \<Longrightarrow> (\<And>e. Q e \<Longrightarrow> \<not> P e) \<Longrightarrow> filter P (emitted f) = []"
  by (auto simp: filter_empty_conv dest: emits_emitted)

subsection \<open>Every function of the walk emits findings under its path\<close>

lemma emits_under_weaken: "emits (under (p @ s)) f \<Longrightarrow> emits (under p) f"
  by (erule emits_mono) (auto simp: under_def prefix_def)

lemma under_here [simp]: "under p \<lparr>Path = p, Message = m\<rparr>"
  by (simp add: under_def)

lemma under_below [simp]: "under p \<lparr>Path = p @ s, Message = m\<rparr>"
  by (simp add: under_def)

lemma Schema_validate_emits: "emits (under path) (Schema_validate rc path s)"
proof (induction rc path s rule: Schema_validate.induct)
  case (1 rc path s)
  note IH = "1.IH" [THEN emits_under_weaken]
  show ?case
    by (subst Schema_validate.simps) (intro emits_intros IH; simp)
qed

lemma License_validate_emits: "emits (under path) (License_validate path l)"
  unfolding License_validate_def by (intro emits_intros; simp)

lemma Info_validate_emits: "emits (under path) (Info_validate path i)"
  unfolding Info_validate_def
  by (intro emits_intros License_validate_emits [THEN emits_under_weaken]; simp)

lemma ServerVariable_validate_emits: "emits (under path) (ServerVariable_validate path v)"
  unfolding ServerVariable_validate_def by (intro emits_intros; simp)

lemma Server_validate_emits: "emits (under path) (Server_validate path s)"
  unfolding Server_validate_def
  by (intro emits_intros ServerVariable_validate_emits [THEN emits_under_weaken]; simp)

lemma Tag_validate_emits: "emits (under path) (Tag_validate path t)"
  unfolding Tag_validate_def by (intro emits_intros; simp)

lemma Link_validate_emits: "emits (under path) (Link_validate path l)"
  unfolding Link_validate_def by (intro emits_intros; simp)

lemma Header_validate_emits: "emits (under path) (Header_validate path h)"
  unfolding Header_validate_def by (intro emits_intros; simp)

lemma Encoding_validate_emits: "emits (under path) (Encoding_validate path e)"
  unfolding Encoding_validate_def
  by (intro emits_intros Header_validate_emits [THEN emits_under_weaken]; simp)

lemma MediaType_validate_emits: "emits (under path) (MediaType_validate rc path m)"
  unfolding MediaType_validate_def
  by (intro emits_intros Schema_validate_emits [THEN emits_under_weaken]
        Encoding_validate_emits [THEN emits_under_weaken]; simp)

lemma Parameter_validate_emits: "emits (under path) (Parameter_validate rc path p)"
  unfolding Parameter_validate_def
  by (intro emits_intros Schema_validate_emits [THEN emits_under_weaken]; simp)

lemma RequestBody_validate_emits: "emits (under path) (RequestBody_validate rc path r)"
  unfolding RequestBody_validate_def
  by (intro emits_intros MediaType_validate_emits [THEN emits_under_weaken]; simp)

lemma Response_validate_emits: "emits (under path) (Response_validate rc path r)"
  unfolding Response_validate_def
  by (intro emits_intros MediaType_validate_emits [THEN emits_under_weaken]
        Header_validate_emits [THEN emits_under_weaken]
        Link_validate_emits [THEN emits_under_weaken]; simp)

lemma Responses_validate_emits: "emits (under path) (Responses_validate rc path r)"
  unfolding Responses_validate_def
  by (intro emits_intros Response_validate_emits [THEN emits_under_weaken]; simp)

lemma PathItem_validate_emits: "emits (under path) (PathItem_validate rc path p)"
  and Operation_validate_emits: "emits (under path) (Operation_validate rc path op)"
  and Callback_validate_emits: "emits (under path) (Callback_validate rc path c)"
proof (induction rc path p and rc path op and rc path c
       rule: PathItem_validate_Operation_validate_Callback_validate.induct)
  case (1 rc path p)
  note IH = "1.IH" [THEN emits_under_weaken]
  show ?case
    by (subst PathItem_validate.simps)
       (intro emits_intros IH Parameter_validate_emits [THEN emits_under_weaken]; simp)
next
  case (2 rc path op)
  note IH = "2.IH" [THEN emits_under_weaken]
  show ?case
    by (subst Operation_validate.simps)
       (intro emits_intros IH Parameter_validate_emits [THEN emits_under_weaken]
          Responses_validate_emits [THEN emits_under_weaken]
          RequestBody_validate_emits [THEN emits_under_weaken]; simp)
next
  case (3 rc path c)
  note IH = "3.IH" [THEN emits_under_weaken]
  show ?case
    by (subst Callback_validate.simps) (intro emits_intros IH; simp)
qed

lemma Paths_validate_emits: "emits (under path) (Paths_validate rc path p)"
  unfolding Paths_validate_def
  by (intro emits_intros PathItem_validate_emits [THEN emits_under_weaken]; simp)

lemma OAuthFlows_validate_emits: "emits (under path) (OAuthFlows_validate path f)"
  unfolding OAuthFlows_validate_def by (intro emits_intros; simp)

lemma SecurityScheme_validate_emits: "emits (under path) (SecurityScheme_validate path ss)"
  unfolding SecurityScheme_validate_def
  by (intro emits_intros OAuthFlows_validate_emits [THEN emits_under_weaken]; simp)

lemma component_loop_emits:
  "(\<And>p x. emits (under p) (validate p x)) \<Longrightarrow>
     emits (under path) (component_loop path kind validate entries)"
  unfolding component_loop_def
  by (intro emits_intros emits_under_weaken [of path "''.'' @ kind @ ''['' @ _ @ '']''"]; simp)

lemma Components_validate_emits: "emits (under path) (Components_validate rc path c)"
  unfolding Components_validate_def
  by (intro emits_intros component_loop_emits Schema_validate_emits Response_validate_emits
        Parameter_validate_emits RequestBody_validate_emits Header_validate_emits
        SecurityScheme_validate_emits Link_validate_emits Callback_validate_emits
        PathItem_validate_emits)

subsection \<open>Statements in ascending order of rank\<close>

lemma sorted_map_const: "(\<And>x. x \<in> set xs \<Longrightarrow> g x = (k::nat)) \<Longrightarrow> sorted (map g xs)"
  by (induction xs) auto

lemma staged_Nil: "staged rank k (run [])"
  by (simp add: staged_def emits_run_Nil emitted_run_Nil)

lemma staged_Cons:
  assumes f: "emits (\<lambda>e. rank e = k) f" and fs: "staged rank k' (run fs)" and le: "k \<le> k'"
  shows "staged rank k (run (f # fs))"
proof -
  from fs have fs1: "emits (\<lambda>e. k' \<le> rank e) (run fs)"
    and fs2: "sorted (map rank (emitted (run fs)))"
    by (simp_all add: staged_def)
  have e: "emitted (run (f # fs)) = emitted f @ emitted (run fs)"
    by (rule emitted_run_Cons [OF f fs1])
  have a: "\<And>x. x \<in> set (emitted f) \<Longrightarrow> rank x = k"
    by (rule emits_emitted [OF f])
  have b: "\<And>y. y \<in> set (emitted (run fs)) \<Longrightarrow> k' \<le> rank y"
    by (rule emits_emitted [OF fs1])
  have "emits (\<lambda>e. k \<le> rank e) (run (f # fs))"
    using le by (intro emits_run_Cons emits_mono [OF f] emits_mono [OF fs1]) auto
  moreover have "sorted (map rank (emitted (run (f # fs))))"
    unfolding e using fs2 le a b sorted_map_const [of "emitted f" rank k]
    by (fastforce simp: sorted_append)
  ultimately show ?thesis by (simp add: staged_def)
qed

lemma section_of_under:
  "under ''openapi'' e \<Longrightarrow> section_of (Path e) = 0"
  "under ''info'' e \<Longrightarrow> section_of (Path e) = 1"
  "under ''paths'' e \<Longrightarrow> section_of (Path e) = 3"
  "under ''webhooks['' e \<Longrightarrow> section_of (Path e) = 4"
  "under ''servers['' e \<Longrightarrow> section_of (Path e) = 5"
  "under ''components'' e \<Longrightarrow> section_of (Path e) = 6"
  "under ''tags['' e \<Longrightarrow> section_of (Path e) = 7"
  by (auto simp: under_def section_of_def prefix_def)

lemma section_of_literal:
  "section_of ''openapi'' = 0" "section_of ''info'' = 1" "section_of [] = 2"
  by (simp_all add: section_of_def)

subsection \<open>Counting the findings at a path\<close>

lemma emitted_run:
  "list_all (emits Q) fs \<Longrightarrow> emitted (run fs) = concat (map emitted fs)"
proof (induction fs)
  case Nil
  show ?case by (simp add: emitted_run_Nil)
next
  case (Cons f fs)
  then have f: "emits Q f" and fs: "list_all (emits Q) fs" by simp_all
  have "emits Q (run fs)"
    using fs by (induction fs) (auto intro: emits_run_Nil emits_run_Cons)
  from emitted_run_Cons [OF f this] Cons.IH [OF fs] show ?case by simp
qed

lemma count_findings_Nil [simp]: "count_findings p m [] = 0"
  by (simp add: count_findings_def)

lemma count_findings_append [simp]:
  "count_findings p m (xs @ ys) = count_findings p m xs + count_findings p m ys"
  by (simp add: count_findings_def)

lemma count_findings_check:
  "count_findings p m (emitted (check c f)) = (if c then count_findings p m (emitted f) else 0)"
  by (simp add: emitted_check)

lemma count_findings_addError:
  "count_findings p m (emitted (addError p' m')) = (if p = p' \<and> m = m' then 1 else 0)"
  by (auto simp: emitted_addError count_findings_def)

lemma if_if_zero: "(if a then (if b then x else (0::nat)) else 0) = (if a \<and> b then x else 0)"
  by simp

lemma count_findings_quiet: "quiet_at p f \<Longrightarrow> count_findings p m (emitted f) = 0"
  unfolding quiet_at_def count_findings_def
  by (auto simp: filter_empty_conv dest: emits_emitted)

lemma quiet_at_under: "emits (under (p @ s)) f \<Longrightarrow> s \<noteq> [] \<Longrightarrow> quiet_at p f"
  unfolding quiet_at_def by (erule emits_mono) (auto simp: under_def prefix_def)

lemma quiet_at_Schema_validate:
  "s \<noteq> [] \<Longrightarrow> quiet_at path (Schema_validate rc (path @ s) x)"
  by (rule quiet_at_under [OF Schema_validate_emits])

lemma quiet_at_addError: "p' \<noteq> p \<Longrightarrow> quiet_at p (addError p' m)"
  unfolding quiet_at_def by (rule emits_addError) simp

lemma quiet_at_check: "(c \<Longrightarrow> quiet_at p f) \<Longrightarrow> quiet_at p (check c f)"
  unfolding quiet_at_def by (rule emits_check)

lemma quiet_at_notnil: "(\<And>x. q = Some x \<Longrightarrow> quiet_at p (f x)) \<Longrightarrow> quiet_at p (notnil q f)"
  unfolding quiet_at_def by (rule emits_notnil)

lemma quiet_at_fold: "(\<And>x. x \<in> set xs \<Longrightarrow> quiet_at p (f x)) \<Longrightarrow> quiet_at p (fold f xs)"
  unfolding quiet_at_def by (rule emits_fold)

lemma quiet_at_case_prod:
  "(\<And>a b. (a, b) = x \<Longrightarrow> quiet_at p (f a b)) \<Longrightarrow> quiet_at p (case x of (a, b) \<Rightarrow> f a b)"
  unfolding quiet_at_def by (rule emits_case_prod)

lemmas quiet_intros =
  quiet_at_Schema_validate quiet_at_addError quiet_at_check quiet_at_notnil quiet_at_fold
  quiet_at_case_prod

lemma count_findings_nested_Schema:
  "s \<noteq> [] \<Longrightarrow> count_findings path m (emitted (notnil q (Schema_validate rc (path @ s)))) = 0"
  by (intro count_findings_quiet quiet_intros)

lemma count_findings_nested_Schemas:
  "a \<noteq> [] \<Longrightarrow>
     count_findings path m
       (emitted (fold (\<lambda>(i, schema). notnil schema (Schema_validate rc (path @ a @ h i))) xs)) = 0"
  by (intro count_findings_quiet quiet_intros) simp

lemma count_findings_fold_addError:
  "p' \<noteq> path \<Longrightarrow>
     count_findings path m (emitted (fold (\<lambda>t. check (c t) (addError p' (g t))) xs)) = 0"
  by (intro count_findings_quiet quiet_intros)

lemma count_findings_notnil_addError:
  "p' \<noteq> path \<Longrightarrow>
     count_findings path m (emitted (notnil q (\<lambda>err. addError p' (g err)))) = 0"
  by (intro count_findings_quiet quiet_intros)

lemma Schema_validate_own_findings:
  assumes "\<not> IsBooleanSchema (Some s)" and "Schema_Ref s = []"
  shows "count_findings path msg (emitted (Schema_validate rc path s)) =
    (if Schema_Type s \<noteq> None \<and> Type_Contains (Schema_Type s) ''array''
        \<and> Schema_Items s = None \<and> length (Schema_PrefixItems s) = 0
        \<and> msg = ''array type should have items or prefixItems defined'' then 1 else 0)
    + (if Schema_Minimum s \<noteq> None \<and> Schema_Maximum s \<noteq> None
        \<and> the (Schema_Minimum s) > the (Schema_Maximum s)
        \<and> msg = ''minimum cannot be greater than maximum'' then 1 else 0)
    + (if Schema_ExclusiveMinimum s \<noteq> None \<and> Schema_ExclusiveMaximum s \<noteq> None
        \<and> the (Schema_ExclusiveMinimum s) \<ge> the (Schema_ExclusiveMaximum s)
        \<and> msg = ''exclusiveMinimum must be less than exclusiveMaximum'' then 1 else 0)
    + (if Schema_MinLength s \<noteq> None \<and> Schema_MaxLength s \<noteq> None
        \<and> the (Schema_MinLength s) > the (Schema_MaxLength s)
        \<and> msg = ''minLength cannot be greater than maxLength'' then 1 else 0)
    + (if Schema_MinItems s \<noteq> None \<and> Schema_MaxItems s \<noteq> None
        \<and> the (Schema_MinItems s) > the (Schema_MaxItems s)
        \<and> msg = ''minItems cannot be greater than maxItems'' then 1 else 0)
    + (if Schema_MinProperties s \<noteq> None \<and> Schema_MaxProperties s \<noteq> None
        \<and> the (Schema_MinProperties s) > the (Schema_MaxProperties s)
        \<and> msg = ''minProperties cannot be greater than maxProperties'' then 1 else 0)
    + (if Schema_MinContains s \<noteq> None \<and> Schema_MaxContains s \<noteq> None
        \<and> the (Schema_MinContains s) > the (Schema_MaxContains s)
        \<and> msg = ''minContains cannot be greater than maxContains'' then 1 else 0)"
  apply (subst Schema_validate.simps)
  apply (simp only: assms simp_thms if_False if_True)
  apply (subst emitted_run [where Q = "under path"])
   apply (simp only: list.pred_inject)
   apply (intro conjI TrueI emits_intros Schema_validate_emits [THEN emits_under_weaken]; simp)
  apply (simp only: list.map concat.simps count_findings_append count_findings_Nil)
  apply (simp only: count_findings_check count_findings_addError)
  apply (simp only: count_findings_nested_Schema count_findings_nested_Schemas
       count_findings_fold_addError count_findings_notnil_addError list.distinct append_self_conv
       not_False_eq_True simp_thms if_True if_False cong: if_cong)
  apply (simp split del: if_split add: if_if_zero cong: if_cong)
  done

lemma quiet_at_elsewhere: "emits (under q) f \<Longrightarrow> \<not> prefix q t \<Longrightarrow> quiet_at t f"
  unfolding quiet_at_def by (erule emits_mono) (auto simp: under_def)

lemma count_findings_if:
  "count_findings p m (emitted (if c then f else g)) =
     (if c then count_findings p m (emitted f) else count_findings p m (emitted g))"
  by simp

lemma count_findings_notnil:
  "count_findings p m (emitted (notnil q f)) =
     (case q of None \<Rightarrow> 0 | Some x \<Rightarrow> count_findings p m (emitted (f x)))"
  by (simp add: emitted_notnil split: option.splits)

lemma count_findings_Schema_elsewhere:
  "\<not> prefix q t \<Longrightarrow> count_findings t m (emitted (notnil x (Schema_validate rc q))) = 0"
  by (intro count_findings_quiet quiet_at_notnil quiet_at_elsewhere [OF Schema_validate_emits])

lemma count_findings_positive: "0 < count_findings p m es \<Longrightarrow> es \<noteq> []"
  by (auto simp: count_findings_def)

lemma Parameter_validate_emitted:
  assumes "\<not> Parameter_IsReference (Some p)"
  shows "emitted (Parameter_validate rc path p) = concat (map emitted [
        check (Parameter_Name p = []) (addError (path @ ''.name'') ''required field is missing''),
        (if Parameter_In p = [] then addError (path @ ''.in'') ''required field is missing''
         else check (Parameter_In p \<notin> set validIn)
                (addError (path @ ''.in'')
                   (''must be one of: query, header, path, cookie; got '' @ Parameter_In p))),
        check (Parameter_In p = ''path'' \<and> \<not> Parameter_Required p)
          (addError (path @ ''.required'') ''path parameters must have required: true''),
        check (Parameter_Style p \<noteq> [])
          (notnil (validStyles (Parameter_In p))
             (\<lambda>styles. check (Parameter_Style p \<notin> set styles)
                (addError (path @ ''.style'')
                   (''invalid style '' @ quoted (Parameter_Style p)
                      @ '' for parameter in '' @ quoted (Parameter_In p))))),
        check (\<not> (Parameter_Schema p \<noteq> None) \<and> \<not> (length (Parameter_Content p) > 0))
          (addError path (''must have either 'schema' or '' @ quoted ''content'')),
        check (Parameter_Schema p \<noteq> None \<and> length (Parameter_Content p) > 0)
          (addError path (''cannot have both 'schema' and '' @ quoted ''content'')),
        check (Parameter_Example p \<noteq> ANil \<and> length (Parameter_Examples p) > 0)
          (addError path (''cannot have both 'example' and '' @ quoted ''examples'')),
        notnil (Parameter_Schema p) (\<lambda>x. Schema_validate rc (path @ ''.schema'') x)])"
  unfolding Parameter_validate_def
  apply (simp only: assms if_False)
  apply (rule emitted_run [where Q = "under path"])
  apply (simp only: list.pred_inject)
  apply (intro conjI TrueI emits_intros Schema_validate_emits [THEN emits_under_weaken]; simp)
  done

lemma Parameter_validate_in_findings:
  assumes "\<not> Parameter_IsReference (Some p)"
  shows "count_findings (path @ ''.in'') msg (emitted (Parameter_validate rc path p)) =
     (if Parameter_In p = [] \<and> msg = ''required field is missing''
         \<or> Parameter_In p \<noteq> [] \<and> Parameter_In p \<notin> set validIn
            \<and> msg = ''must be one of: query, header, path, cookie; got '' @ Parameter_In p
      then 1 else 0)"
  unfolding Parameter_validate_emitted [OF assms]
  apply (simp only: list.map concat.simps count_findings_append count_findings_Nil)
  apply (simp add: count_findings_Schema_elsewhere split del: if_split cong: if_cong)
  apply (simp add: count_findings_check count_findings_addError count_findings_if
      count_findings_notnil split del: if_split cong: if_cong)
  apply (auto simp: count_findings_check count_findings_addError
         split: if_splits option.splits)
  done

subsection \<open>Rules for running the walk on a given document\<close>

text \<open>
  The equation of \<^verbatim>\<open>Schema.validate\<close> for a schema given by its fields, so that unfolding
  it stops at the leaves of a given schema.
\<close>

lemmas Schema_validate_Schema =
  Schema_validate.simps [of _ _ "Schema a1 a2 a3 a4 a5 a6 a7 a8 a9 a10 a11 a12 a13 a14 a15 a16
     a17 a18 a19 a20 a21 a22 a23 a24 a25 a26 a27 a28 a29 a30 a31 a32"]
  for a1 a2 a3 a4 a5 a6 a7 a8 a9 a10 a11 a12 a13 a14 a15 a16
     a17 a18 a19 a20 a21 a22 a23 a24 a25 a26 a27 a28 a29 a30 a31 a32

lemmas walk_eval =
  Validate_def Components_validate_def component_loop_def run_def check_def notnil_def
  addError_def namePattern_def Parameter_validate_def Parameter_IsReference_def validIn_def
  validStyles_def quoted_def Schema_validate_Schema IsBooleanSchema_def Type_IsEmpty_def
  Type_Contains_def validTypes_def Info_validate_def

section \<open>Properties of the codec\<close>
















text \<open>
  The number \<^verbatim>\<open>1e999\<close> is out of the range of \<^verbatim>\<open>float64\<close>: \<open>2 ^ 1024\<close> is \<open>16 ^ 256\<close>,
  below \<open>100 ^ 256\<close>.
\<close>

lemma float64_overflow_1e999: "float64_overflow 1 999"
proof -
  have "(2::int) ^ 1024 = (2 ^ 4) ^ 256" by (simp only: power_mult [symmetric]) simp
  also have "\<dots> \<le> (10 ^ 2) ^ 256" by (rule power_mono) simp_all
  also have "\<dots> = 10 ^ 512" by (simp only: power_mult [symmetric]) simp
  also have "\<dots> \<le> 10 ^ 999" by (rule power_increasing) simp_all
  finally have a: "(2::int) ^ 1024 \<le> 10 ^ 999" .
  have b: "(0::int) \<le> 2 ^ 970" by (rule zero_le_power) simp
  have c: "nat 999 = 999" "\<bar>1::int\<bar> = 1" "(0::int) \<le> 999" by simp_all
  have "(2::int) ^ 1024 - 2 ^ 970 \<le> 10 ^ 999"
    unfolding diff_le_eq by (rule add_increasing2 [OF b a])
  then show ?thesis unfolding float64_overflow_def by (simp only: c if_True mult_1)
qed

lemma unmarshal_any_1e999:
  "unmarshal_any (JNumber 1 999) = Inl (UnmarshalTypeError ''number'' ''float64'')"
  by (simp add: float64_overflow_1e999)

text \<open>The definitions that evaluate the codec on a given input.\<close>

lemmas codec_eval = Parameter_UnmarshalJSON_def unmarshal_parameterAlias_def
  parameterAlias_member_def set_field_def save_def dec_any_def dec_node_ptr_def
  extractExtensions_def parameterKnownFields_def Parameter0_def Let_def
  Callback_UnmarshalJSON_def ref_member_def callbackRefOnly_member_def Callback0_def
  unmarshal_any_1e999 upper_def reject_nodes_def reject_PathItem_def
  json_ref_with_name_def json_ref_with_extension_def json_parameter_big_def
  json_callback_big_def

section \<open>The claims\<close>

text \<open>
  C1, as the code has it. \<^verbatim>\<open>Validate\<close> emits its findings part by part, in this order:
  the \<^verbatim>\<open>openapi\<close> version field, the \<^verbatim>\<open>info\<close> block, the root check that one of paths,
  webhooks and components is present, the paths, the webhooks, the servers, the
  components, the tags. So the findings attributed to the servers precede the findings
  attributed to the components, which precede those attributed to the tags; the
  security requirements are not visited. Every finding belongs to one of these parts
  (\<open>section_of\<close> is at most 7), and along the list of findings \<open>section_of\<close> never
  decreases.
\<close>

theorem Validate_section_order:
  "sorted (map (\<lambda>e. section_of (Path e)) (Errors (Validate rc (Some d))))
   \<and> (\<forall>e \<in> set (Errors (Validate rc (Some d))). section_of (Path e) \<le> 7)"
proof -
  let ?R = "\<lambda>e. section_of (Path e)"
  let ?s0 = "if OpenAPI_OpenAPI d = [] then addError ''openapi'' ''required field is missing''
             else check (\<not> prefix ''3.1'' (OpenAPI_OpenAPI d))
                    (addError ''openapi''
                       (''expected 3.1.x version, got '' @ OpenAPI_OpenAPI d))"
  let ?s1 = "if OpenAPI_Info d = None then addError ''info'' ''required field is missing''
             else Info_validate ''info'' (the (OpenAPI_Info d))"
  let ?s2 = "check (\<not> (OpenAPI_Paths d \<noteq> None \<and> length (Paths_Paths (the (OpenAPI_Paths d))) > 0)
                   \<and> \<not> (length (OpenAPI_Webhooks d) > 0)
                   \<and> \<not> (OpenAPI_Components d \<noteq> None))
              (addError [] ''must have at least one of: paths, webhooks, or components'')"
  let ?s3 = "notnil (OpenAPI_Paths d) (\<lambda>x. Paths_validate rc ''paths'' x)"
  let ?s4 = "fold (\<lambda>(name, pathItem).
                    notnil pathItem
                      (\<lambda>x. PathItem_validate rc (''webhooks['' @ name @ '']'') x))
              (OpenAPI_Webhooks d)"
  let ?s5 = "fold (\<lambda>(i, server).
                    notnil server (\<lambda>x. Server_validate (''servers['' @ itoa i @ '']'') x))
              (enumerate 0 (OpenAPI_Servers d))"
  let ?s6 = "notnil (OpenAPI_Components d) (\<lambda>x. Components_validate rc ''components'' x)"
  let ?s7 = "fold (\<lambda>(i, tag).
                    notnil tag (\<lambda>x. Tag_validate (''tags['' @ itoa i @ '']'') x))
              (enumerate 0 (OpenAPI_Tags d))"
  have s0: "emits (\<lambda>e. ?R e = 0) ?s0"
    by (intro emits_intros; simp add: section_of_literal)
  have s1: "emits (\<lambda>e. ?R e = 1) ?s1"
    by (intro emits_intros emits_mono [OF Info_validate_emits];
        simp add: section_of_literal section_of_under)
  have s2: "emits (\<lambda>e. ?R e = 2) ?s2"
    by (intro emits_intros; simp add: section_of_literal)
  have s3: "emits (\<lambda>e. ?R e = 3) ?s3"
    by (intro emits_intros emits_mono [OF Paths_validate_emits]; simp add: section_of_under)
  have s4: "emits (\<lambda>e. ?R e = 4) ?s4"
    by (intro emits_intros emits_mono [OF PathItem_validate_emits [THEN emits_under_weaken]];
        simp add: section_of_under)
  have s5: "emits (\<lambda>e. ?R e = 5) ?s5"
    by (intro emits_intros emits_mono [OF Server_validate_emits [THEN emits_under_weaken]];
        simp add: section_of_under)
  have s6: "emits (\<lambda>e. ?R e = 6) ?s6"
    by (intro emits_intros emits_mono [OF Components_validate_emits];
        simp add: section_of_under)
  have s7: "emits (\<lambda>e. ?R e = 7) ?s7"
    by (intro emits_intros emits_mono [OF Tag_validate_emits [THEN emits_under_weaken]];
        simp add: section_of_under)
  have le: "(0::nat) \<le> 1" "(1::nat) \<le> 2" "(2::nat) \<le> 3" "(3::nat) \<le> 4" "(4::nat) \<le> 5"
    "(5::nat) \<le> 6" "(6::nat) \<le> 7"
    by simp_all
  note t7 = staged_Cons [OF s7 staged_Nil le_refl]
  note t6 = staged_Cons [OF s6 t7 le(7)]
  note t5 = staged_Cons [OF s5 t6 le(6)]
  note t4 = staged_Cons [OF s4 t5 le(5)]
  note t3 = staged_Cons [OF s3 t4 le(4)]
  note t2 = staged_Cons [OF s2 t3 le(3)]
  note t1 = staged_Cons [OF s1 t2 le(2)]
  have st: "staged ?R 0 (run [?s0, ?s1, ?s2, ?s3, ?s4, ?s5, ?s6, ?s7])"
    by (rule staged_Cons [OF s0 t1 le(1)])
  have up: "emits (\<lambda>e. ?R e \<le> 7) (run [?s0, ?s1, ?s2, ?s3, ?s4, ?s5, ?s6, ?s7])"
    by (intro emits_run_Cons emits_run_Nil emits_mono [OF s0] emits_mono [OF s1]
          emits_mono [OF s2] emits_mono [OF s3] emits_mono [OF s4] emits_mono [OF s5]
          emits_mono [OF s6] emits_mono [OF s7]) simp_all
  have E: "Errors (Validate rc (Some d)) = emitted (run [?s0, ?s1, ?s2, ?s3, ?s4, ?s5, ?s6, ?s7])"
    by (simp add: Validate_def emitted_def)
  show ?thesis
    unfolding E using st emits_emitted [OF up] by (simp add: staged_def)
qed

text \<open>
  A document on which the theorem is used: its five findings are attributed to the
  version field, the info block, the servers, the components and the tags, in this
  order.
\<close>

theorem Validate_section_order_witness:
  "map (\<lambda>e. section_of (Path e)) (Errors (Validate (\<lambda>p. None) (Some doc_sections)))
     = [0, 1, 5, 6, 7]
   \<and> sorted (map (\<lambda>e. section_of (Path e)) (Errors (Validate (\<lambda>p. None) (Some doc_sections))))
   \<and> list_all (\<lambda>e. section_of (Path e) \<le> 7) (Errors (Validate (\<lambda>p. None) (Some doc_sections)))"
proof -
  have "map (\<lambda>e. section_of (Path e)) (Errors (Validate (\<lambda>p. None) (Some doc_sections)))
          = [0, 1, 5, 6, 7]"
    by code_simp
  then show ?thesis
    using Validate_section_order [of "\<lambda>p. None" doc_sections] by (simp add: list_all_iff)
qed

text \<open>
  C1 as it is stated fails: it puts the findings of the components before those of the
  servers. On a document whose only violations are a server without URL and a
  component with a bad name, the finding of the server comes first.
\<close>

theorem Validate_components_before_servers_counterexample:
  "Errors (Validate (\<lambda>p. None) (Some doc_server_component)) =
     [\<lparr>Path = ''servers[0].url'', Message = ''required field is missing''\<rparr>,
      \<lparr>Path = ''components.schemas[a b]'',
       Message = ''component name contains invalid characters''\<rparr>]"
  by code_simp

text \<open>
  C6. \<^verbatim>\<open>Validate\<close> on a \<^verbatim>\<open>nil\<close> document returns a result with exactly one finding, which
  reports the \<^verbatim>\<open>nil\<close> document and has the empty path.
\<close>

theorem Validate_nil:
  "Validate rc None = \<lparr>Errors = [\<lparr>Path = [], Message = ''OpenAPI document is nil''\<rparr>]\<rparr>
   \<and> length (Errors (Validate rc None)) = 1
   \<and> \<not> Valid (Validate rc None)"
  by (simp add: Validate_def addError_def Valid_def)

text \<open>
  C10. The accessors are total on \<^verbatim>\<open>nil\<close> receivers: \<^verbatim>\<open>IsBooleanSchema\<close> is false and
  \<^verbatim>\<open>BooleanValue\<close> is \<^verbatim>\<open>nil\<close> on a \<^verbatim>\<open>nil\<close> schema, and \<^verbatim>\<open>IsReference\<close> is false on a \<^verbatim>\<open>nil\<close>
  node of each referenceable kind.
\<close>

theorem accessors_nil_receiver:
  "IsBooleanSchema None = False \<and> BooleanValue None = None
   \<and> Parameter_IsReference None = False \<and> Header_IsReference None = False
   \<and> Callback_IsReference None = False \<and> RequestBody_IsReference None = False
   \<and> Response_IsReference None = False \<and> Link_IsReference None = False
   \<and> SecurityScheme_IsReference None = False \<and> Example_IsReference None = False"
  by (simp add: IsBooleanSchema_def BooleanValue_def Parameter_IsReference_def
        Header_IsReference_def Callback_IsReference_def RequestBody_IsReference_def
        Response_IsReference_def Link_IsReference_def SecurityScheme_IsReference_def
        Example_IsReference_def)

text \<open>
  C5. \<^verbatim>\<open>Validate\<close> does not stop at the first violation, but it does not reach every
  violation either: \<^verbatim>\<open>Header.validate\<close> never validates the schema of the header, whereas
  \<^verbatim>\<open>Parameter.validate\<close> and \<^verbatim>\<open>MediaType.validate\<close> validate theirs. On the document with a
  required property that is not defined, a path parameter with the style \<^verbatim>\<open>form\<close>, and a
  header component whose schema has \<^verbatim>\<open>minimum\<close> above \<^verbatim>\<open>maximum\<close>, \<^verbatim>\<open>Validate\<close> returns two
  findings, not three: the header yields none, though a parameter with the same schema
  yields the finding for the bounds. With that schema among the schema components the
  three violations yield three findings.
\<close>

theorem Validate_header_schema_unvalidated:
  "Errors (Validate (\<lambda>p. None) (Some doc_header_bounds)) =
     [\<lparr>Path = ''components.schemas[Req].required'',
       Message = ''required property '' @ quoted ''missing'' @ '' not defined in properties''\<rparr>,
      \<lparr>Path = ''components.parameters[badStyle].style'',
       Message = ''invalid style 'form' for parameter in '' @ quoted ''path''\<rparr>]
   \<and> length (Errors (Validate (\<lambda>p. None) (Some doc_header_bounds))) = 2
   \<and> Errors (Header_validate ''components.headers[Limit]'' header_min10_max5 \<lparr>Errors = []\<rparr>) = []
   \<and> Errors (Parameter_validate (\<lambda>p. None) ''components.parameters[limit]''
               param_query_min10_max5 \<lparr>Errors = []\<rparr>) =
       [\<lparr>Path = ''components.parameters[limit].schema'',
         Message = ''minimum cannot be greater than maximum''\<rparr>]
   \<and> Errors (Validate (\<lambda>p. None) (Some doc_three_violations)) =
     [\<lparr>Path = ''components.schemas[Bounds]'',
       Message = ''minimum cannot be greater than maximum''\<rparr>,
      \<lparr>Path = ''components.schemas[Req].required'',
       Message = ''required property '' @ quoted ''missing'' @ '' not defined in properties''\<rparr>,
      \<lparr>Path = ''components.parameters[badStyle].style'',
       Message = ''invalid style 'form' for parameter in '' @ quoted ''path''\<rparr>]"
proof -
  have two: "Errors (Validate (\<lambda>p. None) (Some doc_header_bounds)) =
     [\<lparr>Path = ''components.schemas[Req].required'',
       Message = ''required property '' @ quoted ''missing'' @ '' not defined in properties''\<rparr>,
      \<lparr>Path = ''components.parameters[badStyle].style'',
       Message = ''invalid style 'form' for parameter in '' @ quoted ''path''\<rparr>]"
    by (simp add: walk_eval doc_header_bounds_def OpenAPI0_def Info0_def Components0_def
          schema_min10_max5_def schema_required_missing_def schema_string_def
          param_path_form_def Parameter0_def header_min10_max5_def Header_validate_def
          Header_IsReference_def)
  have header: "Errors (Header_validate ''components.headers[Limit]'' header_min10_max5
                  \<lparr>Errors = []\<rparr>) = []"
    by (simp add: walk_eval header_min10_max5_def Header_validate_def Header_IsReference_def)
  have param: "Errors (Parameter_validate (\<lambda>p. None) ''components.parameters[limit]''
               param_query_min10_max5 \<lparr>Errors = []\<rparr>) =
       [\<lparr>Path = ''components.parameters[limit].schema'',
         Message = ''minimum cannot be greater than maximum''\<rparr>]"
    by (simp add: walk_eval param_query_min10_max5_def Parameter0_def schema_min10_max5_def)
  have three: "Errors (Validate (\<lambda>p. None) (Some doc_three_violations)) =
     [\<lparr>Path = ''components.schemas[Bounds]'',
       Message = ''minimum cannot be greater than maximum''\<rparr>,
      \<lparr>Path = ''components.schemas[Req].required'',
       Message = ''required property '' @ quoted ''missing'' @ '' not defined in properties''\<rparr>,
      \<lparr>Path = ''components.parameters[badStyle].style'',
       Message = ''invalid style 'form' for parameter in '' @ quoted ''path''\<rparr>]"
    by (simp add: walk_eval doc_three_violations_def OpenAPI0_def Info0_def Components0_def
          schema_min10_max5_def schema_required_missing_def schema_string_def
          param_path_form_def Parameter0_def)
  show ?thesis
    by (intro conjI two header param three) (simp add: two)
qed

text \<open>
  C8. For a parameter that is not a reference, \<^verbatim>\<open>Parameter.validate\<close> emits a finding at
  the style of the parameter exactly when the style is set, \<^verbatim>\<open>in\<close> is one of \<^verbatim>\<open>path\<close>,
  \<^verbatim>\<open>query\<close>, \<^verbatim>\<open>header\<close>, \<^verbatim>\<open>cookie\<close>, and the style is not one that \<^verbatim>\<open>in\<close> allows: \<^verbatim>\<open>path\<close>
  allows \<^verbatim>\<open>matrix\<close>, \<^verbatim>\<open>label\<close>, \<^verbatim>\<open>simple\<close>; \<^verbatim>\<open>query\<close> allows \<^verbatim>\<open>form\<close>,
  \<^verbatim>\<open>spaceDelimited\<close>, \<^verbatim>\<open>pipeDelimited\<close>, \<^verbatim>\<open>deepObject\<close>; \<^verbatim>\<open>header\<close> allows \<^verbatim>\<open>simple\<close>;
  \<^verbatim>\<open>cookie\<close> allows \<^verbatim>\<open>form\<close>. Then it is one finding, with the message
  \<^verbatim>\<open>invalid style '...' for parameter in '...'\<close>. Every combination of \<^verbatim>\<open>in\<close> and a style
  outside this table yields a finding (for the style, or for \<^verbatim>\<open>in\<close> when \<^verbatim>\<open>in\<close> is not
  one of the four). So \<^verbatim>\<open>in=path\<close> with \<^verbatim>\<open>style=form\<close> gives exactly one style finding,
  and with \<^verbatim>\<open>style=simple\<close> none.
\<close>

theorem Parameter_validate_style:
  assumes "\<not> Parameter_IsReference (Some p)"
  shows
    "count_findings (path @ ''.style'') msg (Errors (Parameter_validate rc path p \<lparr>Errors = []\<rparr>))
       = (if Parameter_Style p \<noteq> []
             \<and> Parameter_In p \<in> {''path'', ''query'', ''header'', ''cookie''}
             \<and> \<not> (Parameter_In p = ''path''
                     \<and> Parameter_Style p \<in> {''matrix'', ''label'', ''simple''}
                   \<or> Parameter_In p = ''query''
                     \<and> Parameter_Style p
                         \<in> {''form'', ''spaceDelimited'', ''pipeDelimited'', ''deepObject''}
                   \<or> Parameter_In p = ''header'' \<and> Parameter_Style p = ''simple''
                   \<or> Parameter_In p = ''cookie'' \<and> Parameter_Style p = ''form'')
             \<and> msg = ''invalid style '' @ quoted (Parameter_Style p)
                        @ '' for parameter in '' @ quoted (Parameter_In p)
          then 1 else 0)
     \<and> (Parameter_Style p \<noteq> []
          \<and> \<not> (Parameter_In p = ''path''
                  \<and> Parameter_Style p \<in> {''matrix'', ''label'', ''simple''}
                \<or> Parameter_In p = ''query''
                  \<and> Parameter_Style p
                      \<in> {''form'', ''spaceDelimited'', ''pipeDelimited'', ''deepObject''}
                \<or> Parameter_In p = ''header'' \<and> Parameter_Style p = ''simple''
                \<or> Parameter_In p = ''cookie'' \<and> Parameter_Style p = ''form'')
          \<longrightarrow> Errors (Parameter_validate rc path p \<lparr>Errors = []\<rparr>) \<noteq> [])"
proof -
  let ?table = "Parameter_In p = ''path''
                  \<and> Parameter_Style p \<in> {''matrix'', ''label'', ''simple''}
                \<or> Parameter_In p = ''query''
                  \<and> Parameter_Style p
                      \<in> {''form'', ''spaceDelimited'', ''pipeDelimited'', ''deepObject''}
                \<or> Parameter_In p = ''header'' \<and> Parameter_Style p = ''simple''
                \<or> Parameter_In p = ''cookie'' \<and> Parameter_Style p = ''form''"
  let ?style_msg = "''invalid style '' @ quoted (Parameter_Style p)
                        @ '' for parameter in '' @ quoted (Parameter_In p)"
  have E: "Errors (Parameter_validate rc path p \<lparr>Errors = []\<rparr>)
             = emitted (Parameter_validate rc path p)"
    by (simp add: emitted_def)
  have style: "count_findings (path @ ''.style'') m (emitted (Parameter_validate rc path p))
       = (if Parameter_Style p \<noteq> []
             \<and> Parameter_In p \<in> {''path'', ''query'', ''header'', ''cookie''}
             \<and> \<not> ?table \<and> m = ?style_msg
          then 1 else 0)" for m
    unfolding Parameter_validate_emitted [OF assms]
    apply (simp only: list.map concat.simps count_findings_append count_findings_Nil)
    apply (simp add: count_findings_Schema_elsewhere split del: if_split cong: if_cong)
    apply (simp add: count_findings_check count_findings_addError count_findings_if
        count_findings_notnil validStyles_def split del: if_split cong: if_cong)
    apply (auto simp: count_findings_check count_findings_addError split: if_splits)
    done
  have some: "emitted (Parameter_validate rc path p) \<noteq> []"
    if s: "Parameter_Style p \<noteq> []" and t: "\<not> ?table"
  proof (cases "Parameter_In p \<in> {''path'', ''query'', ''header'', ''cookie''}")
    case True
    with s t have "count_findings (path @ ''.style'') ?style_msg
        (emitted (Parameter_validate rc path p)) = 1"
      unfolding style by simp
    then have "0 < count_findings (path @ ''.style'') ?style_msg
        (emitted (Parameter_validate rc path p))"
      by simp
    then show ?thesis by (rule count_findings_positive)
  next
    case False
    then have "count_findings (path @ ''.in'')
        (if Parameter_In p = [] then ''required field is missing''
         else ''must be one of: query, header, path, cookie; got '' @ Parameter_In p)
        (emitted (Parameter_validate rc path p)) = 1"
      unfolding Parameter_validate_in_findings [OF assms] by (simp add: validIn_def)
    then have "0 < count_findings (path @ ''.in'')
        (if Parameter_In p = [] then ''required field is missing''
         else ''must be one of: query, header, path, cookie; got '' @ Parameter_In p)
        (emitted (Parameter_validate rc path p))"
      by simp
    then show ?thesis by (rule count_findings_positive)
  qed
  show ?thesis
    unfolding E using style some by blast
qed

text \<open>
  The two parameters of the claim, both required and with a schema: \<^verbatim>\<open>in=path\<close>,
  \<^verbatim>\<open>style=form\<close> has the style finding as its only finding, \<^verbatim>\<open>in=path\<close>, \<^verbatim>\<open>style=simple\<close>
  has no finding.
\<close>

theorem Parameter_validate_style_witness:
  "count_findings ''components.parameters[p].style''
      (''invalid style 'form' for parameter in '' @ quoted ''path'')
      (Errors (Parameter_validate (\<lambda>p. None) ''components.parameters[p]'' param_path_form
                 \<lparr>Errors = []\<rparr>)) = 1
   \<and> Errors (Parameter_validate (\<lambda>p. None) ''components.parameters[p]'' param_path_form
                \<lparr>Errors = []\<rparr>)
       = [\<lparr>Path = ''components.parameters[p].style'',
           Message = ''invalid style 'form' for parameter in '' @ quoted ''path''\<rparr>]
   \<and> Errors (Parameter_validate (\<lambda>p. None) ''components.parameters[p]'' param_path_simple
                \<lparr>Errors = []\<rparr>) = []"
proof -
  have a: "\<not> Parameter_IsReference (Some param_path_form)"
    by (simp add: Parameter_IsReference_def param_path_form_def Parameter0_def)
  have c: "Errors (Parameter_validate (\<lambda>p. None) ''components.parameters[p]'' param_path_form
                \<lparr>Errors = []\<rparr>)
       = [\<lparr>Path = ''components.parameters[p].style'',
           Message = ''invalid style 'form' for parameter in '' @ quoted ''path''\<rparr>]"
    by code_simp
  have d: "Errors (Parameter_validate (\<lambda>p. None) ''components.parameters[p]'' param_path_simple
                \<lparr>Errors = []\<rparr>) = []"
    by code_simp
  show ?thesis
    using Parameter_validate_style [OF a, of "''components.parameters[p]''"
        "''invalid style '' @ quoted ''form'' @ '' for parameter in '' @ quoted ''path''"
        "\<lambda>p. None"] c d
    by (simp add: param_path_form_def Parameter0_def quoted_def)
qed

text \<open>
  C9. For a schema that is neither boolean nor a reference, \<^verbatim>\<open>Schema.validate\<close> emits
  the finding of a pair of bounds, at the path of the schema, once when both bounds are
  present and the lower one exceeds the upper one (for the exclusive bounds: when
  \<^verbatim>\<open>exclusiveMinimum\<close> is not less than \<^verbatim>\<open>exclusiveMaximum\<close>), and not at all otherwise.
  The pairs are minimum/maximum, exclusiveMinimum/exclusiveMaximum, minLength/maxLength,
  minItems/maxItems, minProperties/maxProperties and minContains/maxContains.
\<close>

theorem Schema_validate_paired_bounds:
  assumes "\<not> IsBooleanSchema (Some s)" and "Schema_Ref s = []"
  shows
    "count_findings path ''minimum cannot be greater than maximum''
        (Errors (Schema_validate rc path s \<lparr>Errors = []\<rparr>))
       = (if Schema_Minimum s \<noteq> None \<and> Schema_Maximum s \<noteq> None
             \<and> the (Schema_Minimum s) > the (Schema_Maximum s) then 1 else 0)
     \<and> count_findings path ''exclusiveMinimum must be less than exclusiveMaximum''
        (Errors (Schema_validate rc path s \<lparr>Errors = []\<rparr>))
       = (if Schema_ExclusiveMinimum s \<noteq> None \<and> Schema_ExclusiveMaximum s \<noteq> None
             \<and> \<not> the (Schema_ExclusiveMinimum s) < the (Schema_ExclusiveMaximum s)
          then 1 else 0)
     \<and> count_findings path ''minLength cannot be greater than maxLength''
        (Errors (Schema_validate rc path s \<lparr>Errors = []\<rparr>))
       = (if Schema_MinLength s \<noteq> None \<and> Schema_MaxLength s \<noteq> None
             \<and> the (Schema_MinLength s) > the (Schema_MaxLength s) then 1 else 0)
     \<and> count_findings path ''minItems cannot be greater than maxItems''
        (Errors (Schema_validate rc path s \<lparr>Errors = []\<rparr>))
       = (if Schema_MinItems s \<noteq> None \<and> Schema_MaxItems s \<noteq> None
             \<and> the (Schema_MinItems s) > the (Schema_MaxItems s) then 1 else 0)
     \<and> count_findings path ''minProperties cannot be greater than maxProperties''
        (Errors (Schema_validate rc path s \<lparr>Errors = []\<rparr>))
       = (if Schema_MinProperties s \<noteq> None \<and> Schema_MaxProperties s \<noteq> None
             \<and> the (Schema_MinProperties s) > the (Schema_MaxProperties s) then 1 else 0)
     \<and> count_findings path ''minContains cannot be greater than maxContains''
        (Errors (Schema_validate rc path s \<lparr>Errors = []\<rparr>))
       = (if Schema_MinContains s \<noteq> None \<and> Schema_MaxContains s \<noteq> None
             \<and> the (Schema_MinContains s) > the (Schema_MaxContains s) then 1 else 0)"
proof -
  have E: "Errors (Schema_validate rc path s \<lparr>Errors = []\<rparr>) = emitted (Schema_validate rc path s)"
    by (simp add: emitted_def)
  show ?thesis
    unfolding E Schema_validate_own_findings [OF assms]
    by (simp add: not_less)
qed

text \<open>
  The two schemas of the claim: \<^verbatim>\<open>minimum=10, maximum=5\<close> yields one finding, whose
  message names \<^verbatim>\<open>minimum\<close> and \<^verbatim>\<open>maximum\<close>; \<^verbatim>\<open>minimum=5, maximum=10\<close> yields none.
\<close>

theorem Schema_validate_paired_bounds_witness:
  "count_findings ''components.schemas[a]'' ''minimum cannot be greater than maximum''
      (Errors (Schema_validate (\<lambda>p. None) ''components.schemas[a]'' schema_min10_max5
                 \<lparr>Errors = []\<rparr>)) = 1
   \<and> Errors (Schema_validate (\<lambda>p. None) ''components.schemas[a]'' schema_min10_max5
                \<lparr>Errors = []\<rparr>)
       = [\<lparr>Path = ''components.schemas[a]'',
           Message = ''minimum cannot be greater than maximum''\<rparr>]
   \<and> count_findings ''components.schemas[a]'' ''minimum cannot be greater than maximum''
      (Errors (Schema_validate (\<lambda>p. None) ''components.schemas[a]'' schema_min5_max10
                 \<lparr>Errors = []\<rparr>)) = 0
   \<and> Errors (Schema_validate (\<lambda>p. None) ''components.schemas[a]'' schema_min5_max10
                \<lparr>Errors = []\<rparr>) = []"
proof -
  have a: "\<not> IsBooleanSchema (Some schema_min10_max5)" "Schema_Ref schema_min10_max5 = []"
    and b: "\<not> IsBooleanSchema (Some schema_min5_max10)" "Schema_Ref schema_min5_max10 = []"
    by (simp_all add: IsBooleanSchema_def schema_min10_max5_def schema_min5_max10_def)
  have c: "Errors (Schema_validate (\<lambda>p. None) ''components.schemas[a]'' schema_min10_max5
                \<lparr>Errors = []\<rparr>)
       = [\<lparr>Path = ''components.schemas[a]'',
           Message = ''minimum cannot be greater than maximum''\<rparr>]"
    by code_simp
  have d: "Errors (Schema_validate (\<lambda>p. None) ''components.schemas[a]'' schema_min5_max10
                \<lparr>Errors = []\<rparr>) = []"
    by code_simp
  show ?thesis
    using Schema_validate_paired_bounds [OF a, of "''components.schemas[a]''" "\<lambda>p. None"]
      Schema_validate_paired_bounds [OF b, of "''components.schemas[a]''" "\<lambda>p. None"] c d
    by (simp add: schema_min10_max5_def schema_min5_max10_def)
qed

text \<open>
  C7. Decoding the text \<^verbatim>\<open>true\<close> or \<^verbatim>\<open>false\<close> into a schema sets the boolean value of the
  schema and nothing else, whatever decoder the schema uses for objects; on a new
  schema the result is the boolean schema that \<^verbatim>\<open>NewBooleanSchema\<close> makes. The decoded
  schema is a boolean schema (\<^verbatim>\<open>IsBooleanSchema\<close>) with that boolean value
  (\<^verbatim>\<open>BooleanValue\<close>). Encoding any schema with a boolean value yields the bare text
  \<^verbatim>\<open>true\<close> or \<^verbatim>\<open>false\<close>: no other field of the schema and no encoder of objects has a
  part in it.
\<close>

theorem Schema_boolean_duality:
  "Schema_UnmarshalJSON unmarshal_alias (JBool b) s = Inr (Schema_set_boolValue (Some b) s)
   \<and> Some (Schema_set_boolValue (Some b) Schema0) = NewBooleanSchema b
   \<and> IsBooleanSchema (Some (Schema_set_boolValue (Some b) s))
   \<and> BooleanValue (Some (Schema_set_boolValue (Some b) s)) = Some b
   \<and> Schema_MarshalJSON marshal_alias (Schema_set_boolValue (Some b) t) = Inr (JBool b)"
  by (cases s; cases t)
     (simp add: Schema_UnmarshalJSON_def Schema_MarshalJSON_def IsBooleanSchema_def
        BooleanValue_def marshal_bool_def Schema0_def NewBooleanSchema_def)

text \<open>
  C3. Extension capture does not report a value that fails to decode. The number
  \<^verbatim>\<open>1e999\<close> does not decode as a generic value. \<^verbatim>\<open>Parameter.UnmarshalJSON\<close>, which
  captures extensions with \<^verbatim>\<open>extractExtensions\<close>, decodes the object with the member
  \<^verbatim>\<open>"x-big": 1e999\<close> without an error and leaves that member out of the extensions,
  keeping the other extension of the object. \<^verbatim>\<open>Callback.UnmarshalJSON\<close>, which has a loop
  of its own, fails on \<^verbatim>\<open>{"x-big": 1e999}\<close> with the error of the number.
\<close>

theorem extension_decode_failure_swallowed:
  "unmarshal_any (JNumber 1 999) = Inl (UnmarshalTypeError ''number'' ''float64'')
   \<and> Parameter_UnmarshalJSON reject_nodes json_parameter_big =
       Inr (Parameter0\<lparr>Parameter_Name := ''id'', Parameter_In := ''query'',
              Parameter_Extensions := [(''x-note'', AString ''kept'')]\<rparr>)
   \<and> Callback_UnmarshalJSON reject_PathItem json_callback_big Callback0 =
       Inl (UnmarshalTypeError ''number'' ''float64'')"
  by (simp add: codec_eval del: unmarshal_any.simps(3))




end
